theory Spec2Isabelle
  imports Complex_Main
begin

section \<open>Python values, exceptions and the runtime\<close>

text \<open>
  The output-management pipeline of the repository is embedded function by function.
  Conventions of the embedding:
  \<^item> Python \<open>str\<close> is \<open>string\<close>, restricted to the code points below 256 that an
    Isabelle \<open>char\<close> holds; the character classes below follow Python on all of them.
  \<^item> Python \<open>float\<close> is \<open>rat\<close>: exact arithmetic, no rounding, no NaN, no infinity.
  \<^item> A raised exception is the \<open>Inl\<close> of a sum; \<open>try/except\<close> is a case distinction.
  \<^item> A leading underscore of a Python name is dropped (\<open>_merge_outputs\<close> is
    \<open>merge_outputs\<close>); a name that clashes with another one gets a prefix or suffix.
  \<^item> Library calls whose result the repository does not determine (\<open>json.loads\<close>,
    \<open>yaml.safe_load\<close>, \<open>json.dumps\<close>, \<open>repr\<close> of a non-string value, the format
    \<open>:.1%\<close> of a float, the iteration order of a \<open>set\<close>) are fields of a runtime record \<open>pyenv\<close> that every function
    using them takes as its first argument.
\<close>

datatype pyval =
    PNone
  | PBool bool
  | PInt int
  | PFloat rat
  | PStr string
  | PList "pyval list"
  | PDict "(string \<times> pyval) list"

datatype exc =
    JSONDecodeError string
  | YAMLError string
  | ValueError string
  | AttributeError string
  | ValidationError string
  | StatisticsError string
  | ZeroDivisionError string
  | OtherError string

text \<open>\<open>str(e)\<close> of an exception.\<close>

fun message :: "exc \<Rightarrow> string" where
  "message (JSONDecodeError m) = m"
| "message (YAMLError m) = m"
| "message (ValueError m) = m"
| "message (AttributeError m) = m"
| "message (ValidationError m) = m"
| "message (StatisticsError m) = m"
| "message (ZeroDivisionError m) = m"
| "message (OtherError m) = m"

record pyenv =
  json_loads :: "string \<Rightarrow> exc + pyval"
  yaml_safe_load :: "string \<Rightarrow> exc + pyval"
  json_dumps :: "pyval \<Rightarrow> exc + string"
  py_repr :: "pyval \<Rightarrow> string"
  format_percent :: "rat \<Rightarrow> string"
  set_order :: "string list \<Rightarrow> string list"

text \<open>Sequencing of calls that may raise: the first exception wins.\<close>

definition ebind :: "exc + 'a \<Rightarrow> ('a \<Rightarrow> exc + 'b) \<Rightarrow> exc + 'b" where
  "ebind m f = (case m of Inl e \<Rightarrow> Inl e | Inr x \<Rightarrow> f x)"

text \<open>\<open>str(v)\<close>: a string is itself, any other value is printed by \<open>repr\<close>.\<close>

definition py_str :: "pyenv \<Rightarrow> pyval \<Rightarrow> string" where
  "py_str env v = (case v of PStr s \<Rightarrow> s | _ \<Rightarrow> py_repr env v)"

subsection \<open>Characters and strings\<close>

definition NL :: char where
  "NL = CHR 0x0A"

text \<open>\<open>str.isspace\<close> and the class \<open>\s\<close> on the code points below 256.\<close>

definition is_space :: "char \<Rightarrow> bool" where
  "is_space c = (c \<in> set [CHR 0x20, CHR 0x0A, CHR 0x09, CHR 0x0D, CHR 0x0B, CHR 0x0C,
      CHR 0x1C, CHR 0x1D, CHR 0x1E, CHR 0x1F, CHR 0x85, CHR 0xA0])"

definition in_range :: "nat \<Rightarrow> nat \<Rightarrow> char \<Rightarrow> bool" where
  "in_range lo hi c = (lo \<le> of_char c \<and> of_char c \<le> hi)"

definition is_alpha :: "char \<Rightarrow> bool" where
  "is_alpha c = (in_range 97 122 c \<or> in_range 65 90 c \<or> c = CHR 0xAA \<or> c = CHR 0xB5
      \<or> c = CHR 0xBA \<or> in_range 192 214 c \<or> in_range 216 246 c \<or> in_range 248 255 c)"

text \<open>The class \<open>\w\<close>: alphanumeric (letters, digits, the superscript digits and the
  fractions of Latin-1) or the underscore.\<close>

definition is_word :: "char \<Rightarrow> bool" where
  "is_word c = (is_alpha c \<or> in_range 48 57 c \<or> c = CHR ''_'' \<or> c = CHR 0xB2
      \<or> c = CHR 0xB3 \<or> c = CHR 0xB9 \<or> in_range 188 190 c)"

definition lower_char :: "char \<Rightarrow> char" where
  "lower_char c = (if in_range 65 90 c \<or> (in_range 192 222 c \<and> c \<noteq> CHR 0xD7)
      then char_of (of_char c + (32::nat)) else c)"

text \<open>Upper case of a letter; the three Latin-1 letters whose upper case lies beyond
  code point 255 are left as they are.\<close>

definition upper_char :: "char \<Rightarrow> char" where
  "upper_char c = (if in_range 97 122 c \<or> (in_range 224 254 c \<and> c \<noteq> CHR 0xF7)
      then char_of (of_char c - (32::nat)) else c)"

definition is_cased :: "char \<Rightarrow> bool" where
  "is_cased c = (is_alpha c \<and> c \<noteq> CHR 0xAA \<and> c \<noteq> CHR 0xBA)"

definition lower :: "string \<Rightarrow> string" where
  "lower s = map lower_char s"

text \<open>\<open>s.title()\<close>: a cased character is upper case after an uncased one, lower case
  after a cased one.\<close>

fun title_from :: "bool \<Rightarrow> string \<Rightarrow> string" where
  "title_from prev [] = []"
| "title_from prev (c # cs) =
     (if is_cased c then (if prev then lower_char c else upper_char c) # title_from True cs
      else c # title_from False cs)"

definition title :: "string \<Rightarrow> string" where
  "title s = title_from False s"

text \<open>\<open>s.strip()\<close> and \<open>s.strip(chars)\<close>.\<close>

definition strip_by :: "(char \<Rightarrow> bool) \<Rightarrow> string \<Rightarrow> string" where
  "strip_by p s = rev (dropWhile p (rev (dropWhile p s)))"

definition strip :: "string \<Rightarrow> string" where
  "strip s = strip_by is_space s"

text \<open>\<open>s.split(sep)\<close> for a one-character separator: empty pieces are kept, the result
  is never empty.\<close>

fun split_on :: "char \<Rightarrow> string \<Rightarrow> string list" where
  "split_on sep [] = [[]]"
| "split_on sep (c # cs) =
     (if c = sep then [] # split_on sep cs
      else (case split_on sep cs of [] \<Rightarrow> [[c]] | w # ws \<Rightarrow> (c # w) # ws))"

text \<open>\<open>s.split()\<close>: the maximal runs of non-whitespace characters.\<close>

fun split_ws_from :: "string \<Rightarrow> string \<Rightarrow> string list" where
  "split_ws_from cur [] = (if cur = [] then [] else [rev cur])"
| "split_ws_from cur (c # cs) =
     (if is_space c then (if cur = [] then split_ws_from [] cs else rev cur # split_ws_from [] cs)
      else split_ws_from (c # cur) cs)"

definition split_ws :: "string \<Rightarrow> string list" where
  "split_ws s = split_ws_from [] s"

text \<open>\<open>sep.join(parts)\<close>.\<close>

fun join :: "string \<Rightarrow> string list \<Rightarrow> string" where
  "join sep [] = []"
| "join sep [x] = x"
| "join sep (x # y # ys) = x @ sep @ join sep (y # ys)"

text \<open>\<open>s.replace(a, b)\<close> for a one-character \<open>a\<close>.\<close>

definition replace_char :: "char \<Rightarrow> string \<Rightarrow> string \<Rightarrow> string" where
  "replace_char a b s = concat (map (\<lambda>c. if c = a then b else [c]) s)"

text \<open>\<open>s.startswith(p)\<close>, \<open>p in s\<close> and \<open>s.count(p)\<close> (non-overlapping occurrences,
  from the left) for a non-empty \<open>p\<close>.\<close>

definition startswith :: "string \<Rightarrow> string \<Rightarrow> bool" where
  "startswith s p = (take (length p) s = p)"

fun contains :: "string \<Rightarrow> string \<Rightarrow> bool" where
  "contains [] p = (p = [])"
| "contains (c # cs) p = (startswith (c # cs) p \<or> contains cs p)"


text \<open>\<open>str(n)\<close> of an integer.\<close>

fun digits :: "nat \<Rightarrow> string" where
  "digits n = (if n < 10 then [char_of (48 + n)] else digits (n div 10) @ [char_of (48 + n mod 10)])"

definition str_int :: "int \<Rightarrow> string" where
  "str_int i = (if i < 0 then CHR ''-'' # digits (nat (- i)) else digits (nat i))"

definition str_nat :: "nat \<Rightarrow> string" where
  "str_nat n = digits n"

declare digits.simps [simp del]


section \<open>The output model (structured\_output.py)\<close>

datatype OutputType = TEXT | JSON | MARKDOWN | HTML | CSV | XML | YAML

datatype OutputStatus = SUCCESS | PARTIAL | FAILED | PENDING

text \<open>The value of the enumeration member, as the formatted strings show it.\<close>

fun type_value :: "OutputType \<Rightarrow> string" where
  "type_value TEXT = ''text''"
| "type_value JSON = ''json''"
| "type_value MARKDOWN = ''markdown''"
| "type_value HTML = ''html''"
| "type_value CSV = ''csv''"
| "type_value XML = ''xml''"
| "type_value YAML = ''yaml''"

text \<open>\<open>timestamp\<close> is a \<open>datetime\<close>, modelled as a number of seconds; the constructor's
  default \<open>datetime.now()\<close> and the default \<open>id\<close> (\<open>uuid4\<close>) are arguments of the
  functions that construct an output.\<close>

record OutputMetadata =
  agent_id :: string
  agent_role :: string
  task_id :: "string option"
  task_name :: "string option"
  workflow_id :: "string option"
  timestamp :: int
  execution_time :: "rat option"
  tokens_used :: "int option"
  model_used :: "string option"
  confidence_score :: "rat option"
  source_count :: "int option"
  word_count :: "int option"

record OutputValidation =
  is_valid :: bool
  validation_score :: rat
  errors :: "string list"
  warnings :: "string list"
  requirements_met :: "(string \<times> bool) list"

text \<open>The field \<open>id\<close> is \<open>oid\<close> and the field \<open>keywords\<close> is \<open>keywords_list\<close> (both names are
  taken in Isabelle).\<close>

record StructuredOutput =
  oid :: string
  content :: pyval
  output_type :: OutputType
  status :: OutputStatus
  metadata :: OutputMetadata
  validation :: "OutputValidation option"
  sections :: "(string \<times> pyval) list option"
  tags :: "string list"
  keywords_list :: "string list"
  processing_notes :: "string list"
  error_details :: "string option"
  output_file :: "string option"
  backup_files :: "string list"

text \<open>The field constraints pydantic checks when a model is constructed:
  \<open>confidence_score\<close> and \<open>validation_score\<close> have \<open>ge=0.0, le=1.0\<close>, and \<open>content\<close> is a
  string, a dictionary or a list. A violated constraint raises \<open>ValidationError\<close> (whose
  long text is abbreviated here).\<close>

definition new_OutputMetadata :: "OutputMetadata \<Rightarrow> exc + OutputMetadata" where
  "new_OutputMetadata m =
     (case confidence_score m of
        None \<Rightarrow> Inr m
      | Some c \<Rightarrow> if 0 \<le> c \<and> c \<le> 1 then Inr m
                  else Inl (ValidationError ''1 validation error for OutputMetadata: confidence_score''))"

definition new_OutputValidation :: "OutputValidation \<Rightarrow> exc + OutputValidation" where
  "new_OutputValidation v =
     (if 0 \<le> validation_score v \<and> validation_score v \<le> 1 then Inr v
      else Inl (ValidationError ''1 validation error for OutputValidation: validation_score''))"

fun content_shape_ok :: "pyval \<Rightarrow> bool" where
  "content_shape_ok (PStr s) = True"
| "content_shape_ok (PDict d) = True"
| "content_shape_ok (PList l) = True"
| "content_shape_ok v = False"

definition new_StructuredOutput :: "StructuredOutput \<Rightarrow> exc + StructuredOutput" where
  "new_StructuredOutput out =
     (if content_shape_ok (content out) then Inr out
      else Inl (ValidationError ''validation errors for StructuredOutput: content''))"

text \<open>Truthiness of an optional number (\<open>if x:\<close>) and \<open>x or 0\<close>.\<close>

definition truthy :: "('a::zero) option \<Rightarrow> bool" where
  "truthy x = (case x of None \<Rightarrow> False | Some v \<Rightarrow> v \<noteq> 0)"

definition or0 :: "('a::zero) option \<Rightarrow> 'a" where
  "or0 x = (case x of None \<Rightarrow> 0 | Some v \<Rightarrow> v)"

text \<open>The values a comprehension \<open>[f(o) for o in outputs if f(o)]\<close> collects.\<close>

definition truthy_values :: "('b \<Rightarrow> ('a::zero) option) \<Rightarrow> 'b list \<Rightarrow> 'a list" where
  "truthy_values f xs = map (\<lambda>x. or0 (f x)) (filter (\<lambda>x. truthy (f x)) xs)"

text \<open>A dictionary keeps its keys in insertion order; assigning to a key that is
  present keeps the key's place.\<close>

fun dict_set :: "'k \<Rightarrow> 'v \<Rightarrow> ('k \<times> 'v) list \<Rightarrow> ('k \<times> 'v) list" where
  "dict_set k v [] = [(k, v)]"
| "dict_set k v ((k', v') # d) = (if k = k' then (k, v) # d else (k', v') # dict_set k v d)"

definition dict_update :: "('k \<times> 'v) list \<Rightarrow> ('k \<times> 'v) list \<Rightarrow> ('k \<times> 'v) list" where
  "dict_update d new = foldl (\<lambda>acc (k, v). dict_set k v acc) d new"

definition dict_truthy :: "('k \<times> 'v) list option \<Rightarrow> bool" where
  "dict_truthy d = (case d of None \<Rightarrow> False | Some kvs \<Rightarrow> kvs \<noteq> [])"

text \<open>\<open>get_content_preview\<close>: the three branches of the source are the same expression
  on \<open>str(content)\<close>.\<close>

definition get_content_preview :: "pyenv \<Rightarrow> StructuredOutput \<Rightarrow> nat \<Rightarrow> string" where
  "get_content_preview env out max_length =
     take max_length (py_str env (content out))
       @ (if length (py_str env (content out)) > max_length then ''...'' else [])"

subsection \<open>OutputSchema.validate\_output\<close>

text \<open>The schema's fields \<open>name\<close> and \<open>description\<close> are \<open>schema_name\<close> and
  \<open>schema_description\<close>; the method is \<open>schema_validate_output\<close>.\<close>

record OutputSchema =
  schema_name :: string
  schema_description :: string
  version :: string
  required_fields :: "string list"
  optional_fields :: "string list"
  field_types :: "(string \<times> string) list"
  min_word_count :: "int option"
  max_word_count :: "int option"
  required_sections :: "string list"
  format_requirements :: "(string \<times> pyval) list"
  min_confidence :: rat
  required_sources :: "int option"

text \<open>The three accumulators of a validation: \<open>errors\<close>, \<open>warnings\<close>,
  \<open>requirements_met\<close>.\<close>

type_synonym vacc = "string list \<times> string list \<times> (string \<times> bool) list"

definition add_error :: "string \<Rightarrow> string \<Rightarrow> vacc \<Rightarrow> vacc" where
  "add_error msg req acc = (case acc of (es, ws, rs) \<Rightarrow> (es @ [msg], ws, dict_set req False rs))"

definition add_warning :: "string \<Rightarrow> string \<Rightarrow> vacc \<Rightarrow> vacc" where
  "add_warning msg req acc = (case acc of (es, ws, rs) \<Rightarrow> (es, ws @ [msg], dict_set req False rs))"

definition add_met :: "string \<Rightarrow> vacc \<Rightarrow> vacc" where
  "add_met req acc = (case acc of (es, ws, rs) \<Rightarrow> (es, ws, dict_set req True rs))"

definition check_min_word_count :: "OutputSchema \<Rightarrow> StructuredOutput \<Rightarrow> vacc \<Rightarrow> vacc" where
  "check_min_word_count schema out acc =
     (if truthy (min_word_count schema) \<and> truthy (word_count (metadata out)) then
        (if or0 (word_count (metadata out)) < or0 (min_word_count schema) then
           add_error (''Word count '' @ str_int (or0 (word_count (metadata out)))
                        @ '' below minimum '' @ str_int (or0 (min_word_count schema)))
             ''min_word_count'' acc
         else add_met ''min_word_count'' acc)
      else acc)"

definition check_max_word_count :: "OutputSchema \<Rightarrow> StructuredOutput \<Rightarrow> vacc \<Rightarrow> vacc" where
  "check_max_word_count schema out acc =
     (if truthy (max_word_count schema) \<and> truthy (word_count (metadata out)) then
        (if or0 (word_count (metadata out)) > or0 (max_word_count schema) then
           add_warning (''Word count '' @ str_int (or0 (word_count (metadata out)))
                        @ '' exceeds maximum '' @ str_int (or0 (max_word_count schema)))
             ''max_word_count'' acc
         else add_met ''max_word_count'' acc)
      else acc)"

definition check_min_confidence :: "pyenv \<Rightarrow> OutputSchema \<Rightarrow> StructuredOutput \<Rightarrow> vacc \<Rightarrow> vacc" where
  "check_min_confidence env schema out acc =
     (if truthy (confidence_score (metadata out)) then
        (if or0 (confidence_score (metadata out)) < min_confidence schema then
           add_warning (''Confidence score '' @ py_repr env (PFloat (or0 (confidence_score (metadata out))))
                        @ '' below minimum '' @ py_repr env (PFloat (min_confidence schema)))
             ''min_confidence'' acc
         else add_met ''min_confidence'' acc)
      else acc)"

definition check_required_sources :: "OutputSchema \<Rightarrow> StructuredOutput \<Rightarrow> vacc \<Rightarrow> vacc" where
  "check_required_sources schema out acc =
     (if truthy (required_sources schema) \<and> truthy (source_count (metadata out)) then
        (if or0 (source_count (metadata out)) < or0 (required_sources schema) then
           add_error (''Source count '' @ str_int (or0 (source_count (metadata out)))
                        @ '' below required '' @ str_int (or0 (required_sources schema)))
             ''required_sources'' acc
         else add_met ''required_sources'' acc)
      else acc)"

text \<open>The body of the loop over \<open>required_sections\<close>.\<close>

definition check_section :: "(string \<times> pyval) list \<Rightarrow> vacc \<Rightarrow> string \<Rightarrow> vacc" where
  "check_section secs acc section =
     (if section \<notin> set (map fst secs) then
        add_error (''Required section '' @ [CHR 0x27] @ section @ [CHR 0x27] @ '' missing'')
          (''section_'' @ section) acc
      else add_met (''section_'' @ section) acc)"

definition check_required_sections :: "OutputSchema \<Rightarrow> StructuredOutput \<Rightarrow> vacc \<Rightarrow> vacc" where
  "check_required_sections schema out acc =
     (if required_sections schema \<noteq> [] \<and> dict_truthy (sections out) then
        foldl (check_section (case sections out of None \<Rightarrow> [] | Some secs \<Rightarrow> secs)) acc
          (required_sections schema)
      else acc)"

definition schema_checks :: "pyenv \<Rightarrow> OutputSchema \<Rightarrow> StructuredOutput \<Rightarrow> vacc" where
  "schema_checks env schema out =
     check_required_sections schema out
       (check_required_sources schema out
         (check_min_confidence env schema out
           (check_max_word_count schema out
             (check_min_word_count schema out ([], [], [])))))"

definition schema_validate_output ::
  "pyenv \<Rightarrow> OutputSchema \<Rightarrow> StructuredOutput \<Rightarrow> exc + OutputValidation" where
  "schema_validate_output env schema out =
     (case schema_checks env schema out of (es, ws, rs) \<Rightarrow>
        let total_requirements = length rs;
            met_requirements = length (filter snd rs);
            score = (if total_requirements > 0
                     then of_nat met_requirements / of_nat total_requirements else 1)
        in new_OutputValidation
             \<lparr> is_valid = (length es = 0), validation_score = score, errors = es,
               warnings = ws, requirements_met = rs \<rparr>)"

text \<open>The predefined schemas.\<close>

definition RESEARCH_OUTPUT_SCHEMA :: OutputSchema where
  "RESEARCH_OUTPUT_SCHEMA =
     \<lparr> schema_name = ''research_output'', schema_description = ''Schema for research task outputs'',
       version = ''1.0'', required_fields = [''findings'', ''sources'', ''summary''],
       optional_fields = [''statistics'', ''quotes'', ''trends''], field_types = [],
       min_word_count = Some 500, max_word_count = Some 5000,
       required_sections = [''executive_summary'', ''key_findings'', ''sources''],
       format_requirements = [], min_confidence = 7 / 10, required_sources = Some 3 \<rparr>"

definition CONTENT_OUTPUT_SCHEMA :: OutputSchema where
  "CONTENT_OUTPUT_SCHEMA =
     \<lparr> schema_name = ''content_output'', schema_description = ''Schema for content creation outputs'',
       version = ''1.0'', required_fields = [''title'', ''content'', ''meta_description''],
       optional_fields = [''tags'', ''keywords'', ''call_to_action''], field_types = [],
       min_word_count = Some 800, max_word_count = Some 3000,
       required_sections = [''introduction'', ''body'', ''conclusion''],
       format_requirements = [], min_confidence = 8 / 10, required_sources = None \<rparr>"

definition ANALYSIS_OUTPUT_SCHEMA :: OutputSchema where
  "ANALYSIS_OUTPUT_SCHEMA =
     \<lparr> schema_name = ''analysis_output'', schema_description = ''Schema for analytical task outputs'',
       version = ''1.0'', required_fields = [''analysis'', ''insights'', ''recommendations''],
       optional_fields = [''data_points'', ''charts'', ''metrics''], field_types = [],
       min_word_count = Some 300, max_word_count = Some 2000,
       required_sections = [''overview'', ''detailed_analysis'', ''recommendations''],
       format_requirements = [], min_confidence = 7 / 10, required_sources = Some 2 \<rparr>"

section \<open>The validator (output\_validator.py)\<close>

text \<open>A rule's \<open>validator_func\<close> is a Python callable on the output: it returns a value
  whose truthiness counts, or raises.\<close>

record ValidationRule =
  name :: string
  description :: string
  validator_func :: "StructuredOutput \<Rightarrow> exc + bool"
  error_message :: string
  warning_only :: bool
  weight :: rat

text \<open>\<open>ValidationRule.validate\<close>.\<close>

definition rule_validate :: "ValidationRule \<Rightarrow> StructuredOutput \<Rightarrow> bool \<times> string" where
  "rule_validate rule out =
     (case validator_func rule out of
        Inr ok \<Rightarrow> (ok, if ok then [] else error_message rule)
      | Inl e \<Rightarrow> (False, ''Validation error in '' @ name rule @ '': '' @ message e))"

record OutputValidator =
  custom_rules :: "ValidationRule list"
  built_in_rules :: "ValidationRule list"

text \<open>The body of the two loops over rules. The output object is part of the state
  that is passed along: the validator holds a reference to the caller's object.\<close>

definition apply_rule :: "bool \<Rightarrow> StructuredOutput \<times> vacc \<Rightarrow> ValidationRule \<Rightarrow> StructuredOutput \<times> vacc" where
  "apply_rule strict_mode st rule =
     (case st of (out, acc) \<Rightarrow>
        (case rule_validate rule out of (ok, msg) \<Rightarrow>
           if \<not> ok then
             (if warning_only rule \<and> \<not> strict_mode
              then (out, add_warning (name rule @ '': '' @ msg) (name rule) acc)
              else (out, add_error (name rule @ '': '' @ msg) (name rule) acc))
           else (out, add_met (name rule) acc)))"

text \<open>The weight of a requirement: that of the first rule of the list with its name,
  \<open>1.0\<close> when there is none.\<close>

definition find_weight :: "ValidationRule list \<Rightarrow> string \<Rightarrow> rat" where
  "find_weight rules rule_name =
     (case find (\<lambda>rule. name rule = rule_name) rules of None \<Rightarrow> 1 | Some rule \<Rightarrow> weight rule)"

text \<open>The loop over \<open>requirements_met.items()\<close>: the state is
  \<open>(weighted_score, total_weight)\<close>.\<close>

definition score_step :: "ValidationRule list \<Rightarrow> rat \<times> rat \<Rightarrow> string \<times> bool \<Rightarrow> rat \<times> rat" where
  "score_step rules st item =
     (case st of (weighted_score, total_weight) \<Rightarrow>
        (case item of (rule_name, met) \<Rightarrow>
           ((if met then weighted_score + find_weight rules rule_name else weighted_score),
            total_weight + find_weight rules rule_name)))"

definition calc_validation_score :: "ValidationRule list \<Rightarrow> (string \<times> bool) list \<Rightarrow> rat" where
  "calc_validation_score rules rs =
     (if length rs > 0 then
        (case foldl (score_step rules) (0, 0) rs of (weighted_score, total_weight) \<Rightarrow>
           if total_weight > 0 then weighted_score / total_weight else 0)
      else 1)"

text \<open>\<open>OutputValidator.validate_output\<close>. The result is the returned value (or the
  exception raised) together with the state of the output object after the call.
  \<open>custom_rules or self.custom_rules\<close> takes the validator's rules when the argument is
  \<open>None\<close> or the empty list.\<close>

definition validate_output ::
  "pyenv \<Rightarrow> OutputValidator \<Rightarrow> StructuredOutput \<Rightarrow> OutputSchema option \<Rightarrow> ValidationRule list option
     \<Rightarrow> bool \<Rightarrow> (exc + OutputValidation) \<times> StructuredOutput" where
  "validate_output env self out schema custom strict_mode =
     (case (case schema of
              None \<Rightarrow> Inr ([], [], [])
            | Some sch \<Rightarrow>
                ebind (schema_validate_output env sch out)
                  (\<lambda>sv. Inr (errors sv, warnings sv, dict_update [] (requirements_met sv)))) of
        Inl e \<Rightarrow> (Inl e, out)
      | Inr acc0 \<Rightarrow>
          let rules_to_check = (case custom of None \<Rightarrow> custom_rules self
                                | Some [] \<Rightarrow> custom_rules self
                                | Some (r # rs) \<Rightarrow> r # rs) in
          (case foldl (apply_rule strict_mode)
                  (foldl (apply_rule strict_mode) (out, acc0) (built_in_rules self)) rules_to_check of
             (out', es, ws, rs) \<Rightarrow>
               (new_OutputValidation
                  \<lparr> is_valid = (length es = 0),
                    validation_score = calc_validation_score (built_in_rules self @ rules_to_check) rs,
                    errors = es, warnings = ws, requirements_met = rs \<rparr>, out')))"

section \<open>Regular expressions (the part of Python's \<open>re\<close> the repository uses)\<close>

text \<open>
  Every pattern of the repository is built from single characters and character classes,
  repetitions of a single character class (greedy or lazy, with bounds), the anchors
  \<open>^\<close> and \<open>\b\<close>, concatenation, alternation and groups that are not nested. The
  matcher is a backtracking matcher with Python's priorities: it tries the alternatives
  in the order \<open>re\<close> tries them and returns the first that lets the rest of the
  pattern (the continuation) succeed.
\<close>

datatype citem = ILit char | IRange char char | ISpace | IWord | IDigit

datatype cc = CAny | CItem citem | CIn "citem list" | CNotIn "citem list"

datatype rx =
    RChar cc
  | RRep bool cc nat "nat option"
  | RStart
  | RBol
  | RWordB
  | RSeq rx rx
  | RAlt rx rx
  | RGroup rx
  | REps

text \<open>\<open>imatch ic i c\<close>: the item \<open>i\<close> matches the character \<open>c\<close>; \<open>ic\<close> is the flag
  \<open>re.IGNORECASE\<close>. \<open>CAny\<close> is the dot, which does not match a newline.\<close>

fun imatch :: "bool \<Rightarrow> citem \<Rightarrow> char \<Rightarrow> bool" where
  "imatch ic (ILit a) c = (if ic then lower_char a = lower_char c else a = c)"
| "imatch ic (IRange a b) c =
     (in_range (of_char a) (of_char b) c
      \<or> (ic \<and> (in_range (of_char a) (of_char b) (lower_char c)
                \<or> in_range (of_char a) (of_char b) (upper_char c))))"
| "imatch ic ISpace c = is_space c"
| "imatch ic IWord c = is_word c"
| "imatch ic IDigit c = in_range 48 57 c"

fun cmatch :: "bool \<Rightarrow> cc \<Rightarrow> char \<Rightarrow> bool" where
  "cmatch ic CAny c = (c \<noteq> NL)"
| "cmatch ic (CItem i) c = imatch ic i c"
| "cmatch ic (CIn is) c = list_ex (\<lambda>i. imatch ic i c) is"
| "cmatch ic (CNotIn is) c = (\<not> list_ex (\<lambda>i. imatch ic i c) is)"

text \<open>The state of a match: the character before the position (\<open>None\<close> at the start of
  the string), the rest of the string, and the groups captured so far.\<close>

type_synonym mstate = "char option \<times> string \<times> string list"

text \<open>Repetition of a class, at least \<open>lo\<close> and at most \<open>hi\<close> times: the greedy one
  takes a character when it can and gives it back when the continuation fails, the lazy
  one tries the continuation first.\<close>

fun rep_greedy ::
  "bool \<Rightarrow> cc \<Rightarrow> nat \<Rightarrow> nat option \<Rightarrow> char option \<Rightarrow> string
     \<Rightarrow> (char option \<Rightarrow> string \<Rightarrow> 'r option) \<Rightarrow> 'r option" where
  "rep_greedy ic k lo hi p [] cont = (if lo = 0 then cont p [] else None)"
| "rep_greedy ic k lo hi p (c # t) cont =
     (if hi \<noteq> Some 0 \<and> cmatch ic k c then
        (case rep_greedy ic k (lo - 1) (map_option (\<lambda>h. h - 1) hi) (Some c) t cont of
           Some r \<Rightarrow> Some r
         | None \<Rightarrow> if lo = 0 then cont p (c # t) else None)
      else if lo = 0 then cont p (c # t) else None)"

fun rep_lazy ::
  "bool \<Rightarrow> cc \<Rightarrow> nat \<Rightarrow> nat option \<Rightarrow> char option \<Rightarrow> string
     \<Rightarrow> (char option \<Rightarrow> string \<Rightarrow> 'r option) \<Rightarrow> 'r option" where
  "rep_lazy ic k lo hi p [] cont = (if lo = 0 then cont p [] else None)"
| "rep_lazy ic k lo hi p (c # t) cont =
     (case (if lo = 0 then cont p (c # t) else None) of
        Some r \<Rightarrow> Some r
      | None \<Rightarrow>
          if hi \<noteq> Some 0 \<and> cmatch ic k c
          then rep_lazy ic k (lo - 1) (map_option (\<lambda>h. h - 1) hi) (Some c) t cont
          else None)"

definition word_before :: "char option \<Rightarrow> bool" where
  "word_before p = (case p of None \<Rightarrow> False | Some c \<Rightarrow> is_word c)"

definition word_after :: "string \<Rightarrow> bool" where
  "word_after s = (case s of [] \<Rightarrow> False | c # t \<Rightarrow> is_word c)"

text \<open>\<open>mo ic r st cont\<close>: match \<open>r\<close> at the state \<open>st\<close>, then the continuation.
  \<open>RStart\<close> is \<open>^\<close> without \<open>re.MULTILINE\<close>, \<open>RBol\<close> is \<open>^\<close> with it.\<close>

primrec mo :: "bool \<Rightarrow> rx \<Rightarrow> mstate \<Rightarrow> (mstate \<Rightarrow> 'r option) \<Rightarrow> 'r option" where
  "mo ic (RChar k) st cont =
     (case st of (p, s, g) \<Rightarrow>
        (case s of [] \<Rightarrow> None | c # t \<Rightarrow> if cmatch ic k c then cont (Some c, t, g) else None))"
| "mo ic (RRep greedy k lo hi) st cont =
     (case st of (p, s, g) \<Rightarrow>
        if greedy then rep_greedy ic k lo hi p s (\<lambda>p' s'. cont (p', s', g))
        else rep_lazy ic k lo hi p s (\<lambda>p' s'. cont (p', s', g)))"
| "mo ic RStart st cont = (case st of (p, s, g) \<Rightarrow> if p = None then cont st else None)"
| "mo ic RBol st cont =
     (case st of (p, s, g) \<Rightarrow> if p = None \<or> p = Some NL then cont st else None)"
| "mo ic RWordB st cont =
     (case st of (p, s, g) \<Rightarrow> if word_before p \<noteq> word_after s then cont st else None)"
| "mo ic (RSeq a b) st cont = mo ic a st (\<lambda>st'. mo ic b st' cont)"
| "mo ic (RAlt a b) st cont =
     (case mo ic a st cont of Some r \<Rightarrow> Some r | None \<Rightarrow> mo ic b st cont)"
| "mo ic (RGroup r) st cont =
     (case st of (p, s, g) \<Rightarrow>
        mo ic r st (\<lambda>st'. case st' of (p', s', g') \<Rightarrow>
          cont (p', s', g' @ [take (length s - length s') s])))"
| "mo ic REps st cont = cont st"

text \<open>\<open>re.match\<close>: a match at the start of the string. The result is the matched text
  and the groups.\<close>

definition match_here :: "bool \<Rightarrow> rx \<Rightarrow> char option \<Rightarrow> string \<Rightarrow> (string \<times> string list) option" where
  "match_here ic r p s =
     map_option (\<lambda>st. case st of (p', s', g) \<Rightarrow> (take (length s - length s') s, g))
       (mo ic r (p, s, []) Some)"


text \<open>\<open>re.search\<close>: the first position, from the left, with a match.\<close>

fun search_from :: "bool \<Rightarrow> rx \<Rightarrow> char option \<Rightarrow> string \<Rightarrow> (string \<times> string list) option" where
  "search_from ic r p [] = match_here ic r p []"
| "search_from ic r p (c # t) =
     (case match_here ic r p (c # t) of
        Some m \<Rightarrow> Some m
      | None \<Rightarrow> search_from ic r (Some c) t)"

definition re_search :: "bool \<Rightarrow> rx \<Rightarrow> string \<Rightarrow> (string \<times> string list) option" where
  "re_search ic r s = search_from ic r None s"

definition re_found :: "bool \<Rightarrow> rx \<Rightarrow> string \<Rightarrow> bool" where
  "re_found ic r s = (re_search ic r s \<noteq> None)"








text \<open>Building patterns.\<close>

definition ch :: "char \<Rightarrow> rx" where
  "ch c = RChar (CItem (ILit c))"

definition lit :: "string \<Rightarrow> rx" where
  "lit s = foldr (\<lambda>c r. RSeq (ch c) r) s REps"

definition seqs :: "rx list \<Rightarrow> rx" where
  "seqs rs = foldr RSeq rs REps"

definition lazy_any :: rx where
  "lazy_any = RRep False CAny 0 None"

definition spaces0 :: rx where
  "spaces0 = RRep True (CItem ISpace) 0 None"

definition spaces1 :: rx where
  "spaces1 = RRep True (CItem ISpace) 1 None"


section \<open>The processor (output\_processor.py)\<close>

subsection \<open>Type detection\<close>

text \<open>The patterns of \<open>_is_markdown\<close>, searched with \<open>re.MULTILINE\<close>:
  \<^verbatim>\<open>^#{1,6}\s+\<close>, \<^verbatim>\<open>\*\*.*?\*\*\<close>, \<^verbatim>\<open>\*.*?\*\<close>, \<^verbatim>\<open>^\s*[\-\*\+]\s+\<close>,
  \<^verbatim>\<open>^\s*\d+\.\s+\<close>, \<^verbatim>\<open>\[.*?\]\(.*?\)\<close>.\<close>

definition rx_md_header :: rx where
  "rx_md_header = seqs [RBol, RRep True (CItem (ILit CHR ''#'')) 1 (Some 6), spaces1]"

definition rx_md_bold :: rx where
  "rx_md_bold = seqs [lit ''**'', lazy_any, lit ''**'']"

definition rx_md_italic :: rx where
  "rx_md_italic = seqs [ch CHR ''*'', lazy_any, ch CHR ''*'']"

definition rx_md_list :: rx where
  "rx_md_list = seqs [RBol, spaces0, RChar (CIn [ILit CHR ''-'', ILit CHR ''*'', ILit CHR ''+'']), spaces1]"

definition rx_md_numbered :: rx where
  "rx_md_numbered = seqs [RBol, spaces0, RRep True (CItem IDigit) 1 None, ch CHR ''.'', spaces1]"

definition rx_md_link :: rx where
  "rx_md_link = seqs [ch CHR ''['', lazy_any, lit '']('', lazy_any, ch CHR '')'']"

definition markdown_patterns :: "rx list" where
  "markdown_patterns = [rx_md_header, rx_md_bold, rx_md_italic, rx_md_list, rx_md_numbered, rx_md_link]"

definition is_markdown :: "string \<Rightarrow> bool" where
  "is_markdown content_str = list_ex (\<lambda>pattern. re_found False pattern content_str) markdown_patterns"

text \<open>\<^verbatim>\<open><[^>]+>\<close>\<close>

definition rx_html_tag :: rx where
  "rx_html_tag = seqs [ch CHR ''<'', RRep True (CNotIn [ILit CHR ''>'']) 1 None, ch CHR ''>'']"

definition is_html :: "string \<Rightarrow> bool" where
  "is_html content_str = re_found False rx_html_tag content_str"

definition count_char :: "char \<Rightarrow> string \<Rightarrow> nat" where
  "count_char c s = length (filter (\<lambda>x. x = c) s)"

definition is_csv :: "string \<Rightarrow> bool" where
  "is_csv content_str =
     (let lines = split_on NL (strip content_str) in
      if length lines < 2 then False
      else (let separators = map (count_char CHR '','') (take 3 lines) in
            (case separators of [] \<Rightarrow> False
             | first # rest \<Rightarrow> length (remdups separators) = 1 \<and> first > 0)))"

fun is_container :: "pyval \<Rightarrow> bool" where
  "is_container (PDict d) = True"
| "is_container (PList l) = True"
| "is_container v = False"

text \<open>The heuristics that follow the two parsers.\<close>

definition sniff_text :: "string \<Rightarrow> OutputType" where
  "sniff_text s =
     (if is_markdown s then MARKDOWN
      else if is_html s then HTML
      else if is_csv s then CSV
      else TEXT)"

text \<open>\<open>_determine_output_type\<close>. Only \<open>JSONDecodeError\<close> and \<open>YAMLError\<close> are caught; any
  other exception of a parser leaves the function.\<close>

definition after_json :: "pyenv \<Rightarrow> string \<Rightarrow> exc + (OutputType \<times> pyval)" where
  "after_json env s =
     (case yaml_safe_load env s of
        Inr parsed \<Rightarrow> if is_container parsed then Inr (YAML, parsed) else Inr (sniff_text s, PStr s)
      | Inl (YAMLError m) \<Rightarrow> Inr (sniff_text s, PStr s)
      | Inl e \<Rightarrow> Inl e)"

definition determine_output_type :: "pyenv \<Rightarrow> pyval \<Rightarrow> exc + (OutputType \<times> pyval)" where
  "determine_output_type env raw_output =
     (case raw_output of
        PDict d \<Rightarrow> Inr (JSON, raw_output)
      | PList l \<Rightarrow> Inr (JSON, raw_output)
      | PStr s \<Rightarrow>
          (case json_loads env s of
             Inr parsed \<Rightarrow> Inr (JSON, parsed)
           | Inl (JSONDecodeError m) \<Rightarrow> after_json env s
           | Inl e \<Rightarrow> Inl e)
      | _ \<Rightarrow> Inr (TEXT, PStr (py_str env raw_output)))"

subsection \<open>Metadata\<close>

























subsection \<open>Sections\<close>











subsection \<open>Tags and keywords\<close>










subsection \<open>process\_agent\_output\<close>





subsection \<open>The built-in rules\<close>














definition add_custom_rule :: "OutputValidator \<Rightarrow> ValidationRule \<Rightarrow> OutputValidator" where
  "add_custom_rule self rule = self\<lparr> custom_rules := custom_rules self @ [rule] \<rparr>"

section \<open>The aggregator (result\_aggregator.py)\<close>

subsection \<open>Statistics\<close>

text \<open>\<open>statistics.mean\<close> and \<open>statistics.median\<close> raise \<open>StatisticsError\<close> on an empty
  list, \<open>min\<close> and \<open>max\<close> raise \<open>ValueError\<close>, a division by zero raises
  \<open>ZeroDivisionError\<close>.\<close>

definition py_div :: "rat \<Rightarrow> rat \<Rightarrow> exc + rat" where
  "py_div a b = (if b = 0 then Inl (ZeroDivisionError ''division by zero'') else Inr (a / b))"

definition mean :: "rat list \<Rightarrow> exc + rat" where
  "mean xs =
     (if xs = [] then Inl (StatisticsError ''mean requires at least one data point'')
      else Inr (sum_list xs / of_nat (length xs)))"

definition median :: "rat list \<Rightarrow> exc + rat" where
  "median xs =
     (let data = sort xs; n = length data in
      if n = 0 then Inl (StatisticsError ''no median for empty data'')
      else if n mod 2 = 1 then Inr (data ! (n div 2))
      else Inr ((data ! (n div 2 - 1) + data ! (n div 2)) / 2))"

definition py_min :: "('a::linorder) list \<Rightarrow> exc + 'a" where
  "py_min xs =
     (case xs of [] \<Rightarrow> Inl (ValueError ''min() arg is an empty sequence'')
      | x # rest \<Rightarrow> Inr (fold min rest x))"

definition py_max :: "('a::linorder) list \<Rightarrow> exc + 'a" where
  "py_max xs =
     (case xs of [] \<Rightarrow> Inl (ValueError ''max() arg is an empty sequence'')
      | x # rest \<Rightarrow> Inr (fold max rest x))"

text \<open>\<open>min(xs, key=f)\<close> and \<open>max(xs, key=f)\<close> return the first element with the least
  (greatest) key.\<close>

fun first_min_by :: "('a \<Rightarrow> 'k::linorder) \<Rightarrow> 'a \<Rightarrow> 'a list \<Rightarrow> 'a" where
  "first_min_by f best [] = best"
| "first_min_by f best (x # xs) = first_min_by f (if f x < f best then x else best) xs"

fun first_max_by :: "('a \<Rightarrow> 'k::linorder) \<Rightarrow> 'a \<Rightarrow> 'a list \<Rightarrow> 'a" where
  "first_max_by f best [] = best"
| "first_max_by f best (x # xs) = first_max_by f (if f best < f x then x else best) xs"

definition py_min_key :: "('a \<Rightarrow> 'k::linorder) \<Rightarrow> 'a list \<Rightarrow> exc + 'a" where
  "py_min_key f xs =
     (case xs of [] \<Rightarrow> Inl (ValueError ''min() arg is an empty sequence'')
      | x # rest \<Rightarrow> Inr (first_min_by f x rest))"

definition py_max_key :: "('a \<Rightarrow> 'k::linorder) \<Rightarrow> 'a list \<Rightarrow> exc + 'a" where
  "py_max_key f xs =
     (case xs of [] \<Rightarrow> Inl (ValueError ''max() arg is an empty sequence'')
      | x # rest \<Rightarrow> Inr (first_max_by f x rest))"

definition some :: "exc + 'a \<Rightarrow> exc + 'a option" where
  "some m = ebind m (\<lambda>x. Inr (Some x))"

text \<open>\<open>mean([f(o) for o in outs if f(o)]) if any(f(o) for o in outs) else None\<close>.\<close>

definition mean_if_any :: "('b \<Rightarrow> rat option) \<Rightarrow> 'b list \<Rightarrow> exc + rat option" where
  "mean_if_any f outs =
     (if list_ex (\<lambda>x. truthy (f x)) outs then some (mean (truthy_values f outs)) else Inr None)"

definition rat_word_count :: "StructuredOutput \<Rightarrow> rat option" where
  "rat_word_count out = map_option of_int (word_count (metadata out))"

subsection \<open>WorkflowResult and its analytics\<close>

text \<open>The properties \<open>analytics\<close>, \<open>summary\<close> and \<open>insights\<close> cache what they compute;
  \<open>calculate_analytics\<close> is the computation.\<close>

record WorkflowResult =
  wr_workflow_id :: string
  workflow_name :: string
  outputs :: "StructuredOutput list"
  execution_start :: int
  execution_end :: int
  wr_execution_time :: rat

definition new_WorkflowResult ::
  "string \<Rightarrow> string \<Rightarrow> StructuredOutput list \<Rightarrow> int \<Rightarrow> int \<Rightarrow> WorkflowResult" where
  "new_WorkflowResult wid wname outs start end_time =
     \<lparr> wr_workflow_id = wid, workflow_name = wname, outputs = outs, execution_start = start,
       execution_end = end_time, wr_execution_time = of_int (end_time - start) \<rparr>"

record AgentPerformance =
  output_count :: nat
  ap_success_rate :: rat
  avg_word_count :: "rat option"
  avg_execution_time :: "rat option"

record ContentMetrics =
  total_words :: int
  avg_words_per_output :: rat
  min_words :: int
  max_words :: int
  median_words :: rat

record PerformanceMetrics =
  total_execution_time :: rat
  avg_task_time :: rat
  min_task_time :: rat
  max_task_time :: rat
  avg_confidence :: "rat option"
  pm_min_confidence :: "rat option"
  pm_max_confidence :: "rat option"

record QualityMetrics =
  outputs_with_validation :: nat
  avg_validation_score :: "rat option"
  outputs_with_errors :: nat
  outputs_with_warnings :: nat

record Analytics =
  total_outputs :: nat
  status_distribution :: "(OutputStatus \<times> nat) list"
  success_rate :: rat
  agent_count :: nat
  agent_performance :: "(string \<times> AgentPerformance) list"
  content_metrics :: ContentMetrics
  performance_metrics :: PerformanceMetrics
  quality_metrics :: QualityMetrics

datatype analytics_result = AnalyticsError string | AnalyticsOk Analytics

text \<open>\<open>Counter(xs)\<close> and the grouping into a \<open>defaultdict(list)\<close>, keys in the order of
  their first occurrence.\<close>

definition counter :: "'a list \<Rightarrow> ('a \<times> nat) list" where
  "counter xs =
     foldl (\<lambda>acc x. dict_set x (Suc (case map_of acc x of None \<Rightarrow> 0 | Some n \<Rightarrow> n)) acc) [] xs"

definition group_by_role :: "StructuredOutput list \<Rightarrow> (string \<times> StructuredOutput list) list" where
  "group_by_role outs =
     foldl (\<lambda>acc out.
              dict_set (agent_role (metadata out))
                ((case map_of acc (agent_role (metadata out)) of None \<Rightarrow> [] | Some l \<Rightarrow> l) @ [out]) acc)
       [] outs"

definition count_status :: "OutputStatus \<Rightarrow> StructuredOutput list \<Rightarrow> nat" where
  "count_status s outs = length (filter (\<lambda>out. status out = s) outs)"

definition agent_stats :: "StructuredOutput list \<Rightarrow> exc + AgentPerformance" where
  "agent_stats outs =
     ebind (py_div (of_nat (count_status SUCCESS outs)) (of_nat (length outs))) (\<lambda>rate.
     ebind (mean_if_any rat_word_count outs) (\<lambda>awc.
     ebind (mean_if_any (\<lambda>out. execution_time (metadata out)) outs) (\<lambda>aet.
     Inr \<lparr> output_count = length outs, ap_success_rate = rate, avg_word_count = awc,
           avg_execution_time = aet \<rparr>)))"

text \<open>The dictionary comprehension over \<open>agent_performance.items()\<close>.\<close>

fun agent_table :: "(string \<times> StructuredOutput list) list \<Rightarrow> exc + (string \<times> AgentPerformance) list" where
  "agent_table [] = Inr []"
| "agent_table ((agent, outs) # groups) =
     ebind (agent_stats outs) (\<lambda>st.
     ebind (agent_table groups) (\<lambda>rest. Inr ((agent, st) # rest)))"

definition calc_content_metrics :: "int list \<Rightarrow> exc + ContentMetrics" where
  "calc_content_metrics word_counts =
     ebind (if word_counts \<noteq> [] then mean (map of_int word_counts) else Inr 0) (\<lambda>avg.
     ebind (if word_counts \<noteq> [] then py_min word_counts else Inr 0) (\<lambda>mn.
     ebind (if word_counts \<noteq> [] then py_max word_counts else Inr 0) (\<lambda>mx.
     ebind (if word_counts \<noteq> [] then median (map of_int word_counts) else Inr 0) (\<lambda>med.
     Inr \<lparr> total_words = (if word_counts \<noteq> [] then sum_list word_counts else 0),
           avg_words_per_output = avg, min_words = mn, max_words = mx, median_words = med \<rparr>))))"

definition calc_performance_metrics :: "rat \<Rightarrow> rat list \<Rightarrow> rat list \<Rightarrow> exc + PerformanceMetrics" where
  "calc_performance_metrics total_time execution_times confidence_scores =
     ebind (if execution_times \<noteq> [] then mean execution_times else Inr 0) (\<lambda>avg.
     ebind (if execution_times \<noteq> [] then py_min execution_times else Inr 0) (\<lambda>mn.
     ebind (if execution_times \<noteq> [] then py_max execution_times else Inr 0) (\<lambda>mx.
     ebind (if confidence_scores \<noteq> [] then some (mean confidence_scores) else Inr None) (\<lambda>ac.
     ebind (if confidence_scores \<noteq> [] then some (py_min confidence_scores) else Inr None) (\<lambda>cmin.
     ebind (if confidence_scores \<noteq> [] then some (py_max confidence_scores) else Inr None) (\<lambda>cmax.
     Inr \<lparr> total_execution_time = total_time, avg_task_time = avg, min_task_time = mn,
           max_task_time = mx, avg_confidence = ac, pm_min_confidence = cmin,
           pm_max_confidence = cmax \<rparr>))))))"

text \<open>A pydantic model is always truthy: \<open>if o.validation\<close> asks whether a validation is
  attached.\<close>

definition validation_scores :: "StructuredOutput list \<Rightarrow> rat list" where
  "validation_scores outs =
     concat (map (\<lambda>out. case validation out of None \<Rightarrow> [] | Some v \<Rightarrow> [validation_score v]) outs)"

definition has_errors :: "StructuredOutput \<Rightarrow> bool" where
  "has_errors out = (case validation out of None \<Rightarrow> False | Some v \<Rightarrow> errors v \<noteq> [])"

definition has_warnings :: "StructuredOutput \<Rightarrow> bool" where
  "has_warnings out = (case validation out of None \<Rightarrow> False | Some v \<Rightarrow> warnings v \<noteq> [])"

definition calc_quality_metrics :: "StructuredOutput list \<Rightarrow> exc + QualityMetrics" where
  "calc_quality_metrics outs =
     ebind (if list_ex (\<lambda>out. validation out \<noteq> None) outs
            then some (mean (validation_scores outs)) else Inr None) (\<lambda>avs.
     Inr \<lparr> outputs_with_validation = length (filter (\<lambda>out. validation out \<noteq> None) outs),
           avg_validation_score = avs,
           outputs_with_errors = length (filter has_errors outs),
           outputs_with_warnings = length (filter has_warnings outs) \<rparr>)"

definition calculate_analytics :: "WorkflowResult \<Rightarrow> exc + analytics_result" where
  "calculate_analytics self =
     (let n_outputs = length (outputs self) in
      if n_outputs = 0 then Inr (AnalyticsError ''No outputs to analyze'')
      else
        (let status_counts = counter (map status (outputs self));
             groups = group_by_role (outputs self);
             word_counts = truthy_values (\<lambda>out. word_count (metadata out)) (outputs self);
             execution_times = truthy_values (\<lambda>out. execution_time (metadata out)) (outputs self);
             confidence_scores = truthy_values (\<lambda>out. confidence_score (metadata out)) (outputs self)
         in
         ebind (py_div (of_nat (case map_of status_counts SUCCESS of None \<Rightarrow> 0 | Some n \<Rightarrow> n))
                  (of_nat n_outputs)) (\<lambda>rate.
         ebind (agent_table groups) (\<lambda>agents.
         ebind (calc_content_metrics word_counts) (\<lambda>cm.
         ebind (calc_performance_metrics (wr_execution_time self) execution_times confidence_scores) (\<lambda>pm.
         ebind (calc_quality_metrics (outputs self)) (\<lambda>qm.
         Inr (AnalyticsOk
           \<lparr> total_outputs = n_outputs, status_distribution = status_counts, success_rate = rate,
             agent_count = length groups, agent_performance = agents, content_metrics = cm,
             performance_metrics = pm, quality_metrics = qm \<rparr>))))))))"

subsection \<open>Consolidation\<close>

fun status_value :: "OutputStatus \<Rightarrow> string" where
  "status_value SUCCESS = ''success''"
| "status_value PARTIAL = ''partial''"
| "status_value FAILED = ''failed''"
| "status_value PENDING = ''pending''"

text \<open>\<open>status_priority.get(x.status, 0)\<close>: \<open>PENDING\<close> is not a key of the table.\<close>

fun status_priority :: "OutputStatus \<Rightarrow> nat" where
  "status_priority FAILED = 0"
| "status_priority PARTIAL = 1"
| "status_priority SUCCESS = 2"
| "status_priority PENDING = 0"

definition role_prefix :: "string \<Rightarrow> string" where
  "role_prefix agent_name = replace_char CHR '' '' ''_'' (lower agent_name)"

definition merge_sections_of ::
  "(string \<times> pyval) list \<Rightarrow> StructuredOutput \<Rightarrow> (string \<times> pyval) list" where
  "merge_sections_of merged out =
     (if dict_truthy (sections out) then
        foldl (\<lambda>acc kv. dict_set (role_prefix (agent_role (metadata out)) @ ''_'' @ fst kv) (snd kv) acc)
          merged (case sections out of None \<Rightarrow> [] | Some secs \<Rightarrow> secs)
      else merged)"

definition first_workflow_id :: "StructuredOutput list \<Rightarrow> string option" where
  "first_workflow_id outs = (case outs of [] \<Rightarrow> None | out # rest \<Rightarrow> workflow_id (metadata out))"

definition merge_outputs ::
  "pyenv \<Rightarrow> string \<Rightarrow> int \<Rightarrow> StructuredOutput list \<Rightarrow> string \<Rightarrow> exc + StructuredOutput" where
  "merge_outputs env uid now outs role =
     (let merged_content_parts =
            map (\<lambda>out. ''## '' @ agent_role (metadata out) @ '' Output'' @ [NL, NL]
                         @ py_str env (content out)) outs;
          merged_sections = foldl merge_sections_of [] outs;
          all_tags = set_order env (concat (map tags outs));
          all_keywords = set_order env (concat (map keywords_list outs));
          total_word_count = sum_list (map (\<lambda>out. or0 (word_count (metadata out))) outs);
          total_exec_time = sum_list (map (\<lambda>out. or0 (execution_time (metadata out))) outs)
      in
      ebind (mean_if_any (\<lambda>out. confidence_score (metadata out)) outs) (\<lambda>avg_conf.
      ebind (py_min_key (\<lambda>out. status_priority (status out)) outs) (\<lambda>worst.
      ebind (new_OutputMetadata
               \<lparr> agent_id = ''consolidated'', agent_role = role, task_id = None, task_name = None,
                 workflow_id = first_workflow_id outs, timestamp = now,
                 execution_time = Some total_exec_time, tokens_used = None, model_used = None,
                 confidence_score = avg_conf,
                 source_count = Some (sum_list (map (\<lambda>out. or0 (source_count (metadata out))) outs)),
                 word_count = Some total_word_count \<rparr>) (\<lambda>md.
      new_StructuredOutput
        \<lparr> oid = uid, content = PStr (join [NL, NL] merged_content_parts), output_type = MARKDOWN,
          status = status worst, metadata = md, validation = None,
          sections = Some merged_sections, tags = all_tags, keywords_list = all_keywords,
          processing_notes = [''Consolidated from '' @ str_nat (length outs) @ '' agent outputs''],
          error_details = None, output_file = None, backup_files = [] \<rparr>))))"

text \<open>The three status glyphs of the summary (a check mark, a warning sign, a cross) lie
  beyond code point 255; each is written as a bracketed ASCII word, which like the glyph
  is one word for \<open>split\<close>.\<close>

fun status_glyph :: "OutputStatus \<Rightarrow> string" where
  "status_glyph SUCCESS = ''[ok]''"
| "status_glyph PARTIAL = ''[warning]''"
| "status_glyph s = ''[cross]''"

text \<open>The format \<open>{n:,}\<close> of an integer.\<close>

fun chunks3 :: "string \<Rightarrow> string list" where
  "chunks3 (a # b # c # d # rest) = [a, b, c] # chunks3 (d # rest)"
| "chunks3 xs = [xs]"

definition format_thousands :: "int \<Rightarrow> string" where
  "format_thousands i =
     (if i < 0 then CHR ''-'' # rev (join '','' (chunks3 (rev (digits (nat (- i))))))
      else rev (join '','' (chunks3 (rev (digits (nat i))))))"

definition key_section_names :: "string list" where
  "key_section_names = [''summary'', ''findings'', ''conclusion'', ''recommendations'']"

text \<open>The loop that fills \<open>key_sections\<close>, a \<open>defaultdict(list)\<close>.\<close>

definition key_sections_of ::
  "pyenv \<Rightarrow> (string \<times> string list) list \<Rightarrow> StructuredOutput \<Rightarrow> (string \<times> string list) list" where
  "key_sections_of env acc out =
     (if dict_truthy (sections out) then
        foldl (\<lambda>a kv.
                 if lower (fst kv) \<in> set key_section_names then
                   dict_set (fst kv)
                     ((case map_of a (fst kv) of None \<Rightarrow> [] | Some l \<Rightarrow> l)
                        @ [''**'' @ agent_role (metadata out) @ ''**: ''
                           @ take 300 (py_str env (snd kv)) @ ''...'']) a
                 else a)
          acc (case sections out of None \<Rightarrow> [] | Some secs \<Rightarrow> secs)
      else acc)"

definition summarize_outputs ::
  "pyenv \<Rightarrow> string \<Rightarrow> int \<Rightarrow> StructuredOutput list \<Rightarrow> string \<Rightarrow> exc + StructuredOutput" where
  "summarize_outputs env uid now outs role =
     (let head_parts =
            [''# Workflow Summary'' @ [NL],
             ''This summary consolidates results from '' @ str_nat (length outs) @ '' agents:'' @ [NL]]
            @ map (\<lambda>out. ''- '' @ status_glyph (status out) @ '' **'' @ agent_role (metadata out)
                          @ ''**: '' @ get_content_preview env out 100) outs
            @ [[NL] @ ''## Key Findings'' @ [NL]];
          section_parts =
            concat (map (\<lambda>kv. [''### '' @ title (fst kv) @ [NL]] @ snd kv @ [[]])
                      (foldl (key_sections_of env) [] outs));
          total_word_count = sum_list (map (\<lambda>out. or0 (word_count (metadata out))) outs)
      in
      ebind (mean_if_any (\<lambda>out. confidence_score (metadata out)) outs) (\<lambda>avg_conf.
        let summary_parts = head_parts @ section_parts
              @ [''## Workflow Metrics'' @ [NL],
                 ''- **Total Word Count**: '' @ format_thousands total_word_count,
                 (if truthy avg_conf
                  then ''- **Average Confidence**: '' @ format_percent env (or0 avg_conf)
                  else ''- **Average Confidence**: N/A''),
                 ''- **Successful Outputs**: '' @ str_nat (count_status SUCCESS outs) @ ''/''
                    @ str_nat (length outs)]
        in
        ebind (new_OutputMetadata
                 \<lparr> agent_id = ''summary'', agent_role = role, task_id = None, task_name = None,
                   workflow_id = first_workflow_id outs, timestamp = now, execution_time = None,
                   tokens_used = None, model_used = None, confidence_score = None,
                   source_count = Some (sum_list (map (\<lambda>out. or0 (source_count (metadata out))) outs)),
                   word_count = Some (int (length (split_ws (join [NL] summary_parts)))) \<rparr>) (\<lambda>md.
        new_StructuredOutput
          \<lparr> oid = uid, content = PStr (join [NL] summary_parts), output_type = MARKDOWN,
            status = SUCCESS, metadata = md, validation = None, sections = None, tags = [],
            keywords_list = [],
            processing_notes = [''Summary generated from '' @ str_nat (length outs) @ '' agent outputs''],
            error_details = None, output_file = None, backup_files = [] \<rparr>)))"

text \<open>The local function \<open>score_output\<close> of \<open>_select_best_output\<close>.\<close>

definition score_output :: "StructuredOutput \<Rightarrow> rat" where
  "score_output out =
     (if status out = SUCCESS then 3 else if status out = PARTIAL then 1 else 0)
     + (case validation out of None \<Rightarrow> 0 | Some v \<Rightarrow> validation_score v * 2)
     + (if truthy (word_count (metadata out))
        then min (of_int (or0 (word_count (metadata out))) / 1000) 2 else 0)
     + (if truthy (confidence_score (metadata out)) then or0 (confidence_score (metadata out)) else 0)
     + (if dict_truthy (sections out)
        then of_nat (length (case sections out of None \<Rightarrow> [] | Some secs \<Rightarrow> secs)) * (1 / 10)
        else 0)"

definition select_best_output ::
  "string \<Rightarrow> int \<Rightarrow> StructuredOutput list \<Rightarrow> string \<Rightarrow> exc + StructuredOutput" where
  "select_best_output uid now outs role =
     ebind (py_max_key score_output outs) (\<lambda>best_output.
     ebind (new_OutputMetadata
              \<lparr> agent_id = ''best_selected'', agent_role = role,
                task_id = task_id (metadata best_output),
                task_name = task_name (metadata best_output),
                workflow_id = workflow_id (metadata best_output), timestamp = now,
                execution_time = execution_time (metadata best_output), tokens_used = None,
                model_used = None, confidence_score = confidence_score (metadata best_output),
                source_count = source_count (metadata best_output),
                word_count = word_count (metadata best_output) \<rparr>) (\<lambda>md.
     new_StructuredOutput
       \<lparr> oid = uid, content = content best_output, output_type = output_type best_output,
         status = status best_output, metadata = md, validation = validation best_output,
         sections = sections best_output, tags = tags best_output,
         keywords_list = keywords_list best_output,
         processing_notes = processing_notes best_output
           @ [''Selected as best from '' @ str_nat (length outs) @ '' outputs''],
         error_details = None, output_file = None, backup_files = [] \<rparr>))"

definition create_consolidated_output ::
  "pyenv \<Rightarrow> string \<Rightarrow> int \<Rightarrow> StructuredOutput list \<Rightarrow> string \<Rightarrow> string \<Rightarrow> exc + StructuredOutput" where
  "create_consolidated_output env uid now outs consolidation_strategy target_agent_role =
     (if outs = [] then Inl (ValueError ''No outputs provided for consolidation'')
      else if consolidation_strategy = ''merge'' then merge_outputs env uid now outs target_agent_role
      else if consolidation_strategy = ''summary'' then summarize_outputs env uid now outs target_agent_role
      else if consolidation_strategy = ''best'' then select_best_output uid now outs target_agent_role
      else Inl (ValueError (''Unknown consolidation strategy: '' @ consolidation_strategy)))"

subsection \<open>Comparison and ranking\<close>

record Comparison =
  cmp_values :: "pyval list"
  cmp_agents :: "string list"
  cmp_min :: "rat option"
  cmp_max :: "rat option"
  cmp_avg :: "rat option"
  cmp_median :: "rat option"

text \<open>\<open>x or 0\<close> of an optional float: the float when it is truthy, the integer \<open>0\<close>
  otherwise.\<close>

definition float_or0 :: "rat option \<Rightarrow> pyval" where
  "float_or0 x = (if truthy x then PFloat (or0 x) else PInt 0)"

definition criterion_value :: "string \<Rightarrow> StructuredOutput \<Rightarrow> pyval" where
  "criterion_value criterion out =
     (if criterion = ''word_count'' then PInt (or0 (word_count (metadata out)))
      else if criterion = ''execution_time'' then float_or0 (execution_time (metadata out))
      else if criterion = ''confidence_score'' then float_or0 (confidence_score (metadata out))
      else if criterion = ''validation_score'' then
        (case validation out of None \<Rightarrow> PInt 0 | Some v \<Rightarrow> PFloat (validation_score v))
      else if criterion = ''status'' then PStr (status_value (status out))
      else if criterion = ''content_type'' then PStr (type_value (output_type out))
      else PStr ''N/A'')"

fun numeric_value :: "pyval \<Rightarrow> rat list" where
  "numeric_value (PInt i) = [of_int i]"
| "numeric_value (PFloat x) = [x]"
| "numeric_value v = []"

definition compare_by_criterion :: "StructuredOutput list \<Rightarrow> string \<Rightarrow> exc + Comparison" where
  "compare_by_criterion outs criterion =
     (let vals = map (criterion_value criterion) outs;
          agents = map (\<lambda>out. agent_role (metadata out)) outs;
          numeric_values = concat (map numeric_value vals)
      in
      if numeric_values \<noteq> [] then
        ebind (py_min numeric_values) (\<lambda>mn.
        ebind (py_max numeric_values) (\<lambda>mx.
        ebind (mean numeric_values) (\<lambda>avg.
        ebind (median numeric_values) (\<lambda>med.
        Inr \<lparr> cmp_values = vals, cmp_agents = agents, cmp_min = Some mn, cmp_max = Some mx,
              cmp_avg = Some avg, cmp_median = Some med \<rparr>))))
      else Inr \<lparr> cmp_values = vals, cmp_agents = agents, cmp_min = None, cmp_max = None,
                 cmp_avg = None, cmp_median = None \<rparr>)"

record Ranked =
  rank :: nat
  rk_agent :: string
  rk_score :: rat
  rk_status :: OutputStatus
  rk_word_count :: "int option"
  rk_validation_score :: "rat option"

text \<open>\<open>round(x, 2)\<close>, on the exact value: to the nearest hundredth, a tie to the even
  one.\<close>

definition round_half_even :: "rat \<Rightarrow> int" where
  "round_half_even x =
     (let f = \<lfloor>x\<rfloor>; d = x - of_int f in
      if d < 1 / 2 then f else if d > 1 / 2 then f + 1 else if even f then f else f + 1)"

definition py_round2 :: "rat \<Rightarrow> rat" where
  "py_round2 x = of_int (round_half_even (x * 100)) / 100"

definition rank_score :: "StructuredOutput \<Rightarrow> rat" where
  "rank_score out =
     (if status out = SUCCESS then 30 else if status out = PARTIAL then 15 else 0)
     + (case validation out of None \<Rightarrow> 0 | Some v \<Rightarrow> validation_score v * 25)
     + (if truthy (word_count (metadata out))
        then min (of_int (or0 (word_count (metadata out))) / 100) 20 else 0)
     + (if truthy (confidence_score (metadata out))
        then or0 (confidence_score (metadata out)) * 15 else 0)
     + (if dict_truthy (sections out)
        then of_nat (min (length (case sections out of None \<Rightarrow> [] | Some secs \<Rightarrow> secs) * 2) 10)
        else 0)"

definition scored_output :: "StructuredOutput \<Rightarrow> Ranked" where
  "scored_output out =
     \<lparr> rank = 0, rk_agent = agent_role (metadata out), rk_score = py_round2 (rank_score out),
       rk_status = status out, rk_word_count = word_count (metadata out),
       rk_validation_score = map_option validation_score (validation out) \<rparr>"

text \<open>\<open>sort(key=score, reverse=True)\<close> is stable; the ranks are then \<open>1, 2, ...\<close>\<close>

definition rank_outputs :: "StructuredOutput list \<Rightarrow> Ranked list" where
  "rank_outputs outs =
     (let sorted_outputs = sort_key (\<lambda>item. - rk_score item) (map scored_output outs) in
      map (\<lambda>p. (snd p)\<lparr> rank := Suc (fst p) \<rparr>) (enumerate 0 sorted_outputs))"

record ComparisonReport =
  rp_output_count :: nat
  comparison_criteria :: "string list"
  rp_agents :: "string list"
  detailed_comparison :: "(string \<times> Comparison) list"
  ranking :: "Ranked list"

datatype report_result = ReportError string | Report ComparisonReport

definition default_criteria :: "string list" where
  "default_criteria =
     [''word_count'', ''execution_time'', ''confidence_score'', ''validation_score'', ''status'',
      ''content_type'']"

fun compare_all :: "StructuredOutput list \<Rightarrow> (string \<times> Comparison) list \<Rightarrow> string list
    \<Rightarrow> exc + (string \<times> Comparison) list" where
  "compare_all outs acc [] = Inr acc"
| "compare_all outs acc (criterion # criteria) =
     ebind (compare_by_criterion outs criterion) (\<lambda>c.
       compare_all outs (dict_set criterion c acc) criteria)"

definition generate_comparison_report ::
  "StructuredOutput list \<Rightarrow> string list option \<Rightarrow> exc + report_result" where
  "generate_comparison_report outs comparison_criteria_arg =
     (if length outs < 2 then Inr (ReportError ''Need at least 2 outputs for comparison'')
      else
        (let criteria = (case comparison_criteria_arg of None \<Rightarrow> default_criteria
                         | Some [] \<Rightarrow> default_criteria
                         | Some (c # cs) \<Rightarrow> c # cs)
         in ebind (compare_all outs [] criteria) (\<lambda>detailed.
              Inr (Report \<lparr> rp_output_count = length outs, comparison_criteria = criteria,
                            rp_agents = map (\<lambda>out. agent_role (metadata out)) outs,
                            detailed_comparison = detailed, ranking = rank_outputs outs \<rparr>))))"

section \<open>Definitions the claims are stated with\<close>

text \<open>The spec's words for the status of a merge: the worst status present, under the
  order failed, partial, success.\<close>

definition spec_worst_status :: "OutputStatus list \<Rightarrow> OutputStatus" where
  "spec_worst_status ss =
     (if FAILED \<in> set ss then FAILED else if PARTIAL \<in> set ss then PARTIAL else SUCCESS)"

text \<open>A metadata record is one the constructor of \<open>OutputMetadata\<close> accepts.\<close>

definition metadata_ok :: "OutputMetadata \<Rightarrow> bool" where
  "metadata_ok m = (new_OutputMetadata m = Inr m)"

text \<open>A runtime for the concrete scenarios: their texts are not JSON, YAML reads each as
  one plain scalar (a string, which type detection discards), a set is iterated in the
  order of first insertion, and the values the scenarios never print are printed as the
  empty string.\<close>

definition plain_env :: pyenv where
  "plain_env =
     \<lparr> json_loads = (\<lambda>s. Inl (JSONDecodeError ''Expecting value'')),
       yaml_safe_load = (\<lambda>s. Inr (PStr s)),
       json_dumps = (\<lambda>v. Inr []),
       py_repr = (\<lambda>v. []),
       format_percent = (\<lambda>x. []),
       set_order = remdups \<rparr>"

text \<open>An output as \<open>StructuredOutput(content=text, status=s, error_details=err,
  metadata=OutputMetadata(agent_id=..., agent_role=role))\<close> constructs it.\<close>

definition sample_output :: "string \<Rightarrow> string \<Rightarrow> OutputStatus \<Rightarrow> string option \<Rightarrow> StructuredOutput" where
  "sample_output role text s err =
     \<lparr> oid = ''out-'' @ role, content = PStr text, output_type = TEXT, status = s,
       metadata = \<lparr> agent_id = ''agent_'' @ role, agent_role = role, task_id = None,
                    task_name = None, workflow_id = None, timestamp = 0, execution_time = None,
                    tokens_used = None, model_used = None, confidence_score = None,
                    source_count = None, word_count = None \<rparr>,
       validation = None, sections = None, tags = [], keywords_list = [], processing_notes = [],
       error_details = err, output_file = None, backup_files = [] \<rparr>"

text \<open>The keys of the requirements recorded in an accumulator, and those recorded as not
  met.\<close>

definition acc_keys :: "vacc \<Rightarrow> string set" where
  "acc_keys acc = set (map fst (snd (snd acc)))"

definition acc_failed :: "vacc \<Rightarrow> string set" where
  "acc_failed acc = {k. (k, False) \<in> set (snd (snd acc))}"

text \<open>The words of the claims about means: the values of the outputs in which a value is
  present, the nonzero ones among them, and the arithmetic mean of a list.\<close>

definition present_values :: "('b \<Rightarrow> 'a option) \<Rightarrow> 'b list \<Rightarrow> 'a list" where
  "present_values f xs = concat (map (\<lambda>x. case f x of None \<Rightarrow> [] | Some v \<Rightarrow> [v]) xs)"


definition arith_mean :: "rat list \<Rightarrow> rat" where
  "arith_mean vs = sum_list vs / of_nat (length vs)"



text \<open>The words of the claim about the validation score: the weight of a requirement is
  that of the first rule with its name, 1 when no rule has the name; the score is the weight
  of the satisfied requirements over the weight of all of them, and 1 when there is no
  requirement.\<close>

definition spec_weight :: "ValidationRule list \<Rightarrow> string \<Rightarrow> rat" where
  "spec_weight rules n = (case filter (\<lambda>rule. name rule = n) rules of [] \<Rightarrow> 1 | rule # rest \<Rightarrow> weight rule)"


definition total_weight :: "ValidationRule list \<Rightarrow> (string \<times> bool) list \<Rightarrow> rat" where
  "total_weight rules reqs = sum_list (map (\<lambda>req. spec_weight rules (fst req)) reqs)"





text \<open>The pattern of the claim about headings, \<^verbatim>\<open>^#\s\<close> at a line start.\<close>

definition rx_hash_space :: rx where
  "rx_hash_space = seqs [RBol, ch CHR ''#'', RChar (CItem ISpace)]"

text \<open>A runtime whose \<open>json.loads\<close> reads a string literal without escapes (the text
  between the double quotes) and is \<open>plain_env\<close> otherwise.\<close>

definition json_literal :: "string \<Rightarrow> exc + pyval" where
  "json_literal s =
     (case s of
        [] \<Rightarrow> Inl (JSONDecodeError ''Expecting value'')
      | c # t \<Rightarrow>
          if c = CHR 0x22 \<and> t \<noteq> [] \<and> last t = CHR 0x22
             \<and> list_all (\<lambda>x. x \<noteq> CHR 0x22 \<and> x \<noteq> CHR 0x5C \<and> 32 \<le> (of_char x :: nat)) (butlast t)
          then Inr (PStr (butlast t))
          else Inl (JSONDecodeError ''Expecting value''))"

definition literal_env :: pyenv where
  "literal_env = plain_env \<lparr> json_loads := json_literal \<rparr>"

text \<open>The character before a position of a string that is searched: the last character of
  what precedes the position, or the character before the string.\<close>

definition prev_char :: "char option \<Rightarrow> string \<Rightarrow> char option" where
  "prev_char p pre = (if pre = [] then p else Some (last pre))"


text \<open>A workflow result with two outputs of one agent role, one with a word count of 0 (as
  the processor reports for a dictionary without string values) and one with a word count
  of 10.\<close>

definition zero_words_result :: WorkflowResult where
  "zero_words_result =
     \<lparr> wr_workflow_id = ''wf'', workflow_name = ''demo'',
       outputs = [(sample_output ''Writer'' [] SUCCESS None)
                    \<lparr> metadata := (metadata (sample_output ''Writer'' [] SUCCESS None))
                         \<lparr> word_count := Some 0 \<rparr> \<rparr>,
                  (sample_output ''Writer'' ''ten words'' SUCCESS None)
                    \<lparr> metadata := (metadata (sample_output ''Writer'' ''ten words'' SUCCESS None))
                         \<lparr> word_count := Some 10 \<rparr> \<rparr>],
       execution_start = 0, execution_end = 5, wr_execution_time = 5 \<rparr>"

section \<open>Basic facts\<close>

lemma ebind_Inr [simp]: "ebind (Inr x) f = f x"
  by (simp add: ebind_def)

lemma ebind_Inl [simp]: "ebind (Inl e) f = Inl e"
  by (simp add: ebind_def)

lemma ebind_eq_Inr: "ebind m f = Inr y \<longleftrightarrow> (\<exists>x. m = Inr x \<and> f x = Inr y)"
  by (cases m) simp_all

lemma new_OutputMetadata_ok:
  "(case confidence_score m of None \<Rightarrow> True | Some c \<Rightarrow> 0 \<le> c \<and> c \<le> 1) \<Longrightarrow> new_OutputMetadata m = Inr m"
  by (cases "confidence_score m") (simp_all add: new_OutputMetadata_def)

lemma metadata_ok_iff:
  "metadata_ok m \<longleftrightarrow> (case confidence_score m of None \<Rightarrow> True | Some c \<Rightarrow> 0 \<le> c \<and> c \<le> 1)"
  by (cases "confidence_score m") (simp_all add: metadata_ok_def new_OutputMetadata_def)

lemma truthy_values_nonempty: "truthy_values f xs \<noteq> [] \<longleftrightarrow> list_ex (\<lambda>x. truthy (f x)) xs"
  by (induction xs) (auto simp: truthy_values_def)

lemma truthy_values_set: "v \<in> set (truthy_values f xs) \<Longrightarrow> \<exists>x\<in>set xs. f x = Some v"
  by (auto simp: truthy_values_def truthy_def or0_def split: option.splits)

subsection \<open>Means of values between 0 and 1\<close>

lemma sum_list_unit_bounds:
  fixes xs :: "rat list"
  shows "\<forall>x\<in>set xs. 0 \<le> x \<and> x \<le> 1 \<Longrightarrow> 0 \<le> sum_list xs \<and> sum_list xs \<le> of_nat (length xs)"
  by (induction xs) auto

lemma mean_unit:
  fixes xs :: "rat list"
  assumes "xs \<noteq> []" "\<forall>x\<in>set xs. 0 \<le> x \<and> x \<le> 1"
  shows "\<exists>m. mean xs = Inr m \<and> 0 \<le> m \<and> m \<le> 1"
proof -
  have n: "0 < (of_nat (length xs) :: rat)" using assms(1) by simp
  have b: "0 \<le> sum_list xs \<and> sum_list xs \<le> of_nat (length xs)"
    using sum_list_unit_bounds assms(2) by blast
  have "sum_list xs / of_nat (length xs) \<le> 1" using n b by (simp add: divide_le_eq)
  moreover have "0 \<le> sum_list xs / of_nat (length xs)" using n b by simp
  ultimately show ?thesis using assms(1) by (simp add: mean_def)
qed

lemma mean_if_any_unit:
  assumes "\<forall>x\<in>set xs. case f x of None \<Rightarrow> True | Some c \<Rightarrow> 0 \<le> c \<and> c \<le> 1"
  shows "\<exists>r. mean_if_any f xs = Inr r \<and> (case r of None \<Rightarrow> True | Some c \<Rightarrow> 0 \<le> c \<and> c \<le> (1::rat))"
proof (cases "list_ex (\<lambda>x. truthy (f x)) xs")
  case True
  then have ne: "truthy_values f xs \<noteq> []" by (simp add: truthy_values_nonempty)
  have "\<forall>v\<in>set (truthy_values f xs). 0 \<le> v \<and> v \<le> 1"
  proof
    fix v assume "v \<in> set (truthy_values f xs)"
    then obtain x where "x \<in> set xs" "f x = Some v" using truthy_values_set by fastforce
    then show "0 \<le> v \<and> v \<le> 1" using assms by force
  qed
  then obtain m where "mean (truthy_values f xs) = Inr m" "0 \<le> m" "m \<le> 1"
    using mean_unit [OF ne] by blast
  then show ?thesis using True by (simp add: mean_if_any_def some_def)
next
  case False
  then show ?thesis by (simp add: mean_if_any_def)
qed

section \<open>C2: the status of a merge\<close>

lemma first_min_by_status:
  "PENDING \<notin> status ` set (b # xs) \<Longrightarrow>
   status (first_min_by (\<lambda>out. status_priority (status out)) b xs)
     = spec_worst_status (map status (b # xs))"
proof (induction xs arbitrary: b)
  case Nil
  then show ?case by (cases "status b") (simp_all add: spec_worst_status_def)
next
  case (Cons x xs)
  let ?b = "if status_priority (status x) < status_priority (status b) then x else b"
  have "PENDING \<notin> status ` set (?b # xs)" using Cons.prems by auto
  then have "status (first_min_by (\<lambda>out. status_priority (status out)) ?b xs)
      = spec_worst_status (map status (?b # xs))" by (rule Cons.IH)
  moreover have "spec_worst_status (map status (?b # xs)) = spec_worst_status (map status (b # x # xs))"
    using Cons.prems by (cases "status b"; cases "status x") (auto simp: spec_worst_status_def)
  ultimately show ?case by simp
qed

text \<open>
  C2. For every non-empty list of outputs with statuses among success, partial and failed
  (each with metadata its constructor accepts), \<open>create_consolidated_output\<close> with the
  strategy \<open>merge\<close> returns an output, and its status is the worst status present under
  the order failed, partial, success.
\<close>

theorem merge_status_is_worst:
  assumes "outs \<noteq> []"
    and "\<forall>out\<in>set outs. status out \<in> {SUCCESS, PARTIAL, FAILED}"
    and "\<forall>out\<in>set outs. metadata_ok (metadata out)"
  shows "\<exists>merged. create_consolidated_output env uid now outs ''merge'' role = Inr merged
           \<and> status merged = spec_worst_status (map status outs)"
proof -
  obtain b xs where outs: "outs = b # xs" using assms(1) by (cases outs) auto
  have np: "PENDING \<notin> status ` set (b # xs)" using assms(2) outs by force
  have "\<forall>out\<in>set outs. case confidence_score (metadata out) of None \<Rightarrow> True | Some c \<Rightarrow> 0 \<le> c \<and> c \<le> 1"
    using assms(3) by (simp add: metadata_ok_iff)
  then obtain r where r: "mean_if_any (\<lambda>out. confidence_score (metadata out)) outs = Inr r"
      "case r of None \<Rightarrow> True | Some c \<Rightarrow> 0 \<le> c \<and> c \<le> 1"
    using mean_if_any_unit [of outs "\<lambda>out. confidence_score (metadata out)"] by blast
  have k: "py_min_key (\<lambda>out. status_priority (status out)) outs
      = Inr (first_min_by (\<lambda>out. status_priority (status out)) b xs)"
    by (simp add: py_min_key_def outs)
  show ?thesis
    using assms(1) r k first_min_by_status [OF np]
    by (simp add: create_consolidated_output_def merge_outputs_def Let_def new_OutputMetadata_ok
        new_StructuredOutput_def outs)
qed

text \<open>The scenario of the spec: the statuses success, success, failed merge to failed.\<close>

theorem merge_status_is_worst_witness:
  "\<exists>merged. create_consolidated_output plain_env ''merged-1'' 0
       [sample_output ''Researcher'' ''first text'' SUCCESS None,
        sample_output ''Writer'' ''second text'' SUCCESS None,
        sample_output ''Editor'' ''third text'' FAILED (Some ''boom'')]
       ''merge'' ''Consolidated Agent'' = Inr merged
     \<and> status merged = FAILED"
  using merge_status_is_worst [of
      "[sample_output ''Researcher'' ''first text'' SUCCESS None,
        sample_output ''Writer'' ''second text'' SUCCESS None,
        sample_output ''Editor'' ''third text'' FAILED (Some ''boom'')]"
      plain_env "''merged-1''" 0 "''Consolidated Agent''"]
  by (simp add: sample_output_def metadata_ok_iff spec_worst_status_def)

section \<open>C8: the preconditions of the aggregator\<close>

text \<open>
  C8. \<open>create_consolidated_output\<close> raises \<open>ValueError\<close> for an empty list of outputs,
  whatever the strategy; \<open>generate_comparison_report\<close> with fewer than two outputs returns
  the error-shaped value and does not raise.
\<close>

theorem consolidation_raises_comparison_reports:
  assumes "length outs < 2"
  shows "create_consolidated_output env uid now [] strategy role
           = Inl (ValueError ''No outputs provided for consolidation'')
       \<and> generate_comparison_report outs criteria
           = Inr (ReportError ''Need at least 2 outputs for comparison'')"
  using assms by (simp add: create_consolidated_output_def generate_comparison_report_def)

theorem consolidation_raises_comparison_reports_witness:
  "create_consolidated_output plain_env ''c-1'' 0 [] ''merge'' ''Consolidated Agent''
           = Inl (ValueError ''No outputs provided for consolidation'')
       \<and> generate_comparison_report [sample_output ''Writer'' ''some text'' SUCCESS None] None
           = Inr (ReportError ''Need at least 2 outputs for comparison'')"
  using consolidation_raises_comparison_reports
    [of "[sample_output ''Writer'' ''some text'' SUCCESS None]" plain_env "''c-1''" 0 "''merge''"
        "''Consolidated Agent''" None]
  by simp

section \<open>C10: the validator does not change the output\<close>

lemma apply_rule_fst: "fst (apply_rule strict st rule) = fst st"
  by (cases st) (simp add: apply_rule_def split: prod.splits)

lemma foldl_apply_rule_fst: "fst (foldl (apply_rule strict) st rules) = fst st"
  by (induction rules arbitrary: st) (simp_all add: apply_rule_fst)

text \<open>
  C10. \<open>OutputValidator.validate_output\<close> leaves the output it is given as it was: the
  object after the call equals the object before it, and in particular its \<open>validation\<close>
  field is the one it had (the returned \<open>OutputValidation\<close> is not attached to it).
\<close>

theorem validate_output_read_only:
  "snd (validate_output env self out schema custom strict_mode) = out
   \<and> validation (snd (validate_output env self out schema custom strict_mode)) = validation out"
proof -
  have "snd (validate_output env self out schema custom strict_mode) = out"
  proof (cases "case schema of None \<Rightarrow> Inr ([], [], [])
            | Some sch \<Rightarrow> ebind (schema_validate_output env sch out)
                (\<lambda>sv. Inr (errors sv, warnings sv, dict_update [] (requirements_met sv)))")
    case (Inl e)
    then show ?thesis by (simp add: validate_output_def)
  next
    case (Inr acc0)
    let ?rules = "case custom of None \<Rightarrow> custom_rules self | Some [] \<Rightarrow> custom_rules self
                  | Some (r # rs) \<Rightarrow> r # rs"
    have "fst (foldl (apply_rule strict_mode)
        (foldl (apply_rule strict_mode) (out, acc0) (built_in_rules self)) ?rules) = out"
      by (simp add: foldl_apply_rule_fst)
    then show ?thesis using Inr
      by (auto simp: validate_output_def Let_def split: prod.splits)
  qed
  then show ?thesis by simp
qed

section \<open>C9: what the schema checks\<close>

lemma dict_set_map_fst:
  "map fst (dict_set k v d) = (if k \<in> fst ` set d then map fst d else map fst d @ [k])"
  by (induction d) force+

lemma dict_set_keys: "set (map fst (dict_set k v d)) = insert k (set (map fst d))"
  by (auto simp: dict_set_map_fst)

lemma dict_set_entries: "(k', b) \<in> set (dict_set k v d) \<Longrightarrow> (k' = k \<and> b = v) \<or> (k', b) \<in> set d"
  by (induction d) (auto split: if_splits)

lemma add_error_keys: "acc_keys (add_error msg k acc) = insert k (acc_keys acc)"
  by (cases acc) (simp add: add_error_def acc_keys_def dict_set_keys del: set_map)

lemma add_warning_keys: "acc_keys (add_warning msg k acc) = insert k (acc_keys acc)"
  by (cases acc) (simp add: add_warning_def acc_keys_def dict_set_keys del: set_map)

lemma add_met_keys: "acc_keys (add_met k acc) = insert k (acc_keys acc)"
  by (cases acc) (simp add: add_met_def acc_keys_def dict_set_keys del: set_map)

lemma add_error_failed: "x \<in> acc_failed (add_error msg k acc) \<Longrightarrow> x = k \<or> x \<in> acc_failed acc"
  by (cases acc) (auto simp: add_error_def acc_failed_def dest: dict_set_entries)

lemma add_warning_failed: "x \<in> acc_failed (add_warning msg k acc) \<Longrightarrow> x = k \<or> x \<in> acc_failed acc"
  by (cases acc) (auto simp: add_warning_def acc_failed_def dest: dict_set_entries)

lemma add_met_failed: "x \<in> acc_failed (add_met k acc) \<Longrightarrow> x \<in> acc_failed acc"
  by (cases acc) (auto simp: add_met_def acc_failed_def dest: dict_set_entries)

lemma add_error_errors: "fst (add_error msg k acc) = fst acc @ [msg]"
  by (cases acc) (simp add: add_error_def)

lemma add_warning_errors: "fst (add_warning msg k acc) = fst acc"
  by (cases acc) (simp add: add_warning_def)

lemma add_met_errors: "fst (add_met k acc) = fst acc"
  by (cases acc) (simp add: add_met_def)

lemmas acc_simps = add_error_keys add_warning_keys add_met_keys add_error_errors
  add_warning_errors add_met_errors

lemma check_min_word_count_keys:
  "x \<in> acc_keys (check_min_word_count schema out acc) \<Longrightarrow>
     x \<in> acc_keys acc \<or> (x = ''min_word_count'' \<and> truthy (min_word_count schema) \<and> truthy (word_count (metadata out)))"
  by (auto simp: check_min_word_count_def acc_simps split: if_splits)

lemma check_min_word_count_failed:
  "x \<in> acc_failed (check_min_word_count schema out acc) \<Longrightarrow>
     x \<in> acc_failed acc \<or> (x = ''min_word_count'' \<and> truthy (min_word_count schema) \<and> truthy (word_count (metadata out)))"
  by (auto simp: check_min_word_count_def split: if_splits dest: add_error_failed add_met_failed)

lemma check_min_word_count_errors:
  "e \<in> set (fst (check_min_word_count schema out acc)) \<Longrightarrow>
     e \<in> set (fst acc) \<or> (startswith e ''Word count '' \<and> truthy (word_count (metadata out)))"
  by (auto simp: check_min_word_count_def acc_simps startswith_def split: if_splits)

lemma check_max_word_count_keys:
  "x \<in> acc_keys (check_max_word_count schema out acc) \<Longrightarrow>
     x \<in> acc_keys acc \<or> (x = ''max_word_count'' \<and> truthy (max_word_count schema) \<and> truthy (word_count (metadata out)))"
  by (auto simp: check_max_word_count_def acc_simps split: if_splits)

lemma check_max_word_count_failed:
  "x \<in> acc_failed (check_max_word_count schema out acc) \<Longrightarrow>
     x \<in> acc_failed acc \<or> x = ''max_word_count''"
  by (auto simp: check_max_word_count_def split: if_splits dest: add_warning_failed add_met_failed)

lemma check_max_word_count_errors:
  "fst (check_max_word_count schema out acc) = fst acc"
  by (auto simp: check_max_word_count_def acc_simps)

lemma check_min_confidence_keys:
  "x \<in> acc_keys (check_min_confidence env schema out acc) \<Longrightarrow>
     x \<in> acc_keys acc \<or> (x = ''min_confidence'' \<and> truthy (confidence_score (metadata out)))"
  by (auto simp: check_min_confidence_def acc_simps split: if_splits)

lemma check_min_confidence_failed:
  "x \<in> acc_failed (check_min_confidence env schema out acc) \<Longrightarrow>
     x \<in> acc_failed acc \<or> x = ''min_confidence''"
  by (auto simp: check_min_confidence_def split: if_splits dest: add_warning_failed add_met_failed)

lemma check_min_confidence_errors:
  "fst (check_min_confidence env schema out acc) = fst acc"
  by (auto simp: check_min_confidence_def acc_simps)

lemma check_required_sources_keys:
  "x \<in> acc_keys (check_required_sources schema out acc) \<Longrightarrow>
     x \<in> acc_keys acc \<or> (x = ''required_sources'' \<and> truthy (required_sources schema) \<and> truthy (source_count (metadata out)))"
  by (auto simp: check_required_sources_def acc_simps split: if_splits)

lemma check_required_sources_failed:
  "x \<in> acc_failed (check_required_sources schema out acc) \<Longrightarrow>
     x \<in> acc_failed acc \<or> x = ''required_sources''"
  by (auto simp: check_required_sources_def split: if_splits dest: add_error_failed add_met_failed)

lemma check_required_sources_errors:
  "e \<in> set (fst (check_required_sources schema out acc)) \<Longrightarrow>
     e \<in> set (fst acc) \<or> startswith e ''Source count ''"
  by (auto simp: check_required_sources_def acc_simps startswith_def split: if_splits)

lemma check_section_keys:
  "x \<in> acc_keys (check_section secs acc sec) \<Longrightarrow> x \<in> acc_keys acc \<or> x = ''section_'' @ sec"
  by (auto simp: check_section_def acc_simps split: if_splits)

lemma check_section_failed:
  "x \<in> acc_failed (check_section secs acc sec) \<Longrightarrow> x \<in> acc_failed acc \<or> x = ''section_'' @ sec"
  by (auto simp: check_section_def split: if_splits dest: add_error_failed add_met_failed)

lemma check_section_errors:
  "e \<in> set (fst (check_section secs acc sec)) \<Longrightarrow> e \<in> set (fst acc) \<or> startswith e ''Required section ''"
  by (auto simp: check_section_def acc_simps startswith_def split: if_splits)

lemma foldl_reaches:
  assumes step: "\<And>acc r. P (f acc r) \<Longrightarrow> P acc \<or> Q"
  shows "P (foldl f acc rs) \<Longrightarrow> P acc \<or> Q"
proof (induction rs arbitrary: acc)
  case Nil
  then show ?case by simp
next
  case (Cons r rs)
  from Cons.prems have "P (foldl f (f acc r) rs)" by simp
  then have "P (f acc r) \<or> Q" by (rule Cons.IH)
  then show ?case using step by blast
qed

lemma foldl_check_section_keys:
  "x \<in> acc_keys (foldl (check_section secs) acc rs) \<Longrightarrow>
     x \<in> acc_keys acc \<or> (\<exists>sec. x = ''section_'' @ sec)"
  by (rule foldl_reaches [where P = "\<lambda>a. x \<in> acc_keys a" and f = "check_section secs"]) (use check_section_keys in blast)+

lemma foldl_check_section_failed:
  "x \<in> acc_failed (foldl (check_section secs) acc rs) \<Longrightarrow>
     x \<in> acc_failed acc \<or> (\<exists>sec. x = ''section_'' @ sec)"
  by (rule foldl_reaches [where P = "\<lambda>a. x \<in> acc_failed a" and f = "check_section secs"]) (use check_section_failed in blast)+

lemma foldl_check_section_errors:
  "e \<in> set (fst (foldl (check_section secs) acc rs)) \<Longrightarrow>
     e \<in> set (fst acc) \<or> startswith e ''Required section ''"
  by (rule foldl_reaches [where P = "\<lambda>a. e \<in> set (fst a)" and f = "check_section secs"]) (use check_section_errors in blast)+

lemma check_required_sections_keys:
  "x \<in> acc_keys (check_required_sections schema out acc) \<Longrightarrow>
     x \<in> acc_keys acc \<or> ((\<exists>sec. x = ''section_'' @ sec) \<and> required_sections schema \<noteq> [] \<and> dict_truthy (sections out))"
  using foldl_check_section_keys [of x _ acc "required_sections schema"]
  by (auto simp: check_required_sections_def split: if_splits)

lemma check_required_sections_failed:
  "x \<in> acc_failed (check_required_sections schema out acc) \<Longrightarrow>
     x \<in> acc_failed acc \<or> ((\<exists>sec. x = ''section_'' @ sec) \<and> dict_truthy (sections out))"
  using foldl_check_section_failed [of x _ acc "required_sections schema"]
  by (auto simp: check_required_sections_def split: if_splits)

lemma check_required_sections_errors:
  "e \<in> set (fst (check_required_sections schema out acc)) \<Longrightarrow>
     e \<in> set (fst acc) \<or> (startswith e ''Required section '' \<and> dict_truthy (sections out))"
  using foldl_check_section_errors [of e _ acc "required_sections schema"]
  by (auto simp: check_required_sections_def split: if_splits)

lemma schema_checks_keys:
  assumes "x \<in> acc_keys (schema_checks env schema out)"
  shows "(x = ''min_word_count'' \<and> truthy (min_word_count schema) \<and> truthy (word_count (metadata out)))
       \<or> (x = ''max_word_count'' \<and> truthy (max_word_count schema) \<and> truthy (word_count (metadata out)))
       \<or> (x = ''min_confidence'' \<and> truthy (confidence_score (metadata out)))
       \<or> (x = ''required_sources'' \<and> truthy (required_sources schema) \<and> truthy (source_count (metadata out)))
       \<or> ((\<exists>sec. x = ''section_'' @ sec) \<and> required_sections schema \<noteq> [] \<and> dict_truthy (sections out))"
proof -
  define a1 where "a1 = check_min_word_count schema out ([], [], [])"
  define a2 where "a2 = check_max_word_count schema out a1"
  define a3 where "a3 = check_min_confidence env schema out a2"
  define a4 where "a4 = check_required_sources schema out a3"
  define S1 where "S1 \<longleftrightarrow> x = ''min_word_count'' \<and> truthy (min_word_count schema) \<and> truthy (word_count (metadata out))"
  define S2 where "S2 \<longleftrightarrow> x = ''max_word_count'' \<and> truthy (max_word_count schema) \<and> truthy (word_count (metadata out))"
  define S3 where "S3 \<longleftrightarrow> x = ''min_confidence'' \<and> truthy (confidence_score (metadata out))"
  define S4 where "S4 \<longleftrightarrow> x = ''required_sources'' \<and> truthy (required_sources schema) \<and> truthy (source_count (metadata out))"
  define S5 where "S5 \<longleftrightarrow> (\<exists>sec. x = ''section_'' @ sec) \<and> required_sections schema \<noteq> [] \<and> dict_truthy (sections out)"
  have e: "x \<notin> acc_keys ([], [], [])" by (simp add: acc_keys_def)
  from assms have "x \<in> acc_keys (check_required_sections schema out a4)"
    by (simp add: schema_checks_def a1_def a2_def a3_def a4_def)
  then have s5: "x \<in> acc_keys a4 \<or> S5"
    unfolding S5_def by (rule check_required_sections_keys)
  have s4: "x \<in> acc_keys a4 \<Longrightarrow> x \<in> acc_keys a3 \<or> S4"
    unfolding S4_def a4_def by (rule check_required_sources_keys)
  have s3: "x \<in> acc_keys a3 \<Longrightarrow> x \<in> acc_keys a2 \<or> S3"
    unfolding S3_def a3_def by (rule check_min_confidence_keys)
  have s2: "x \<in> acc_keys a2 \<Longrightarrow> x \<in> acc_keys a1 \<or> S2"
    unfolding S2_def a2_def by (rule check_max_word_count_keys)
  have s1: "x \<in> acc_keys a1 \<Longrightarrow> x \<in> acc_keys ([], [], []) \<or> S1"
    unfolding S1_def a1_def by (rule check_min_word_count_keys)
  have "S1 \<or> S2 \<or> S3 \<or> S4 \<or> S5" using s5 s4 s3 s2 s1 e by blast
  then show ?thesis unfolding S1_def S2_def S3_def S4_def S5_def .
qed

lemma schema_checks_failed:
  assumes "x \<in> acc_failed (schema_checks env schema out)"
  shows "(x = ''min_word_count'' \<and> truthy (min_word_count schema) \<and> truthy (word_count (metadata out)))
       \<or> x = ''max_word_count'' \<or> x = ''min_confidence'' \<or> x = ''required_sources''
       \<or> ((\<exists>sec. x = ''section_'' @ sec) \<and> dict_truthy (sections out))"
proof -
  define a1 where "a1 = check_min_word_count schema out ([], [], [])"
  define a2 where "a2 = check_max_word_count schema out a1"
  define a3 where "a3 = check_min_confidence env schema out a2"
  define a4 where "a4 = check_required_sources schema out a3"
  define S1 where "S1 \<longleftrightarrow> x = ''min_word_count'' \<and> truthy (min_word_count schema) \<and> truthy (word_count (metadata out))"
  define S2 where "S2 \<longleftrightarrow> x = ''max_word_count''"
  define S3 where "S3 \<longleftrightarrow> x = ''min_confidence''"
  define S4 where "S4 \<longleftrightarrow> x = ''required_sources''"
  define S5 where "S5 \<longleftrightarrow> (\<exists>sec. x = ''section_'' @ sec) \<and> dict_truthy (sections out)"
  have e: "x \<notin> acc_failed ([], [], [])" by (simp add: acc_failed_def)
  from assms have "x \<in> acc_failed (check_required_sections schema out a4)"
    by (simp add: schema_checks_def a1_def a2_def a3_def a4_def)
  then have s5: "x \<in> acc_failed a4 \<or> S5"
    unfolding S5_def by (rule check_required_sections_failed)
  have s4: "x \<in> acc_failed a4 \<Longrightarrow> x \<in> acc_failed a3 \<or> S4"
    unfolding S4_def a4_def by (rule check_required_sources_failed)
  have s3: "x \<in> acc_failed a3 \<Longrightarrow> x \<in> acc_failed a2 \<or> S3"
    unfolding S3_def a3_def by (rule check_min_confidence_failed)
  have s2: "x \<in> acc_failed a2 \<Longrightarrow> x \<in> acc_failed a1 \<or> S2"
    unfolding S2_def a2_def by (rule check_max_word_count_failed)
  have s1: "x \<in> acc_failed a1 \<Longrightarrow> x \<in> acc_failed ([], [], []) \<or> S1"
    unfolding S1_def a1_def by (rule check_min_word_count_failed)
  have "S1 \<or> S2 \<or> S3 \<or> S4 \<or> S5" using s5 s4 s3 s2 s1 e by blast
  then show ?thesis unfolding S1_def S2_def S3_def S4_def S5_def .
qed

lemma schema_checks_errors:
  assumes "e \<in> set (fst (schema_checks env schema out))"
  shows "(startswith e ''Word count '' \<and> truthy (word_count (metadata out)))
       \<or> startswith e ''Source count ''
       \<or> (startswith e ''Required section '' \<and> dict_truthy (sections out))"
proof -
  define a1 where "a1 = check_min_word_count schema out ([], [], [])"
  define a2 where "a2 = check_max_word_count schema out a1"
  define a3 where "a3 = check_min_confidence env schema out a2"
  define a4 where "a4 = check_required_sources schema out a3"
  from assms have "e \<in> set (fst (check_required_sections schema out a4))"
    by (simp add: schema_checks_def a1_def a2_def a3_def a4_def)
  then have "e \<in> set (fst a4) \<or> (startswith e ''Required section '' \<and> dict_truthy (sections out))"
    by (rule check_required_sections_errors)
  moreover have "e \<in> set (fst a4) \<Longrightarrow> e \<in> set (fst a1) \<or> startswith e ''Source count ''"
    using check_required_sources_errors [of e schema out a3]
    by (simp add: a4_def a3_def a2_def check_min_confidence_errors check_max_word_count_errors)
  moreover have "e \<in> set (fst a1) \<Longrightarrow> startswith e ''Word count '' \<and> truthy (word_count (metadata out))"
    using check_min_word_count_errors [of e schema out "([], [], [])"] by (simp add: a1_def)
  ultimately show ?thesis by blast
qed

lemma schema_validate_output_returns:
  "schema_validate_output env schema out =
     Inr \<lparr> is_valid = (fst (schema_checks env schema out) = []),
           validation_score =
             (if snd (snd (schema_checks env schema out)) = [] then 1
              else of_nat (length (filter snd (snd (snd (schema_checks env schema out)))))
                   / of_nat (length (snd (snd (schema_checks env schema out))))),
           errors = fst (schema_checks env schema out),
           warnings = fst (snd (schema_checks env schema out)),
           requirements_met = snd (snd (schema_checks env schema out)) \<rparr>"
proof -
  obtain es ws rs where c: "schema_checks env schema out = (es, ws, rs)"
    by (cases "schema_checks env schema out") auto
  have "(of_nat (length (filter snd rs)) :: rat) \<le> of_nat (length rs)"
    by simp
  then have "rs \<noteq> [] \<Longrightarrow> (of_nat (length (filter snd rs)) :: rat) / of_nat (length rs) \<le> 1"
    by (simp add: divide_le_eq)
  then show ?thesis
    by (simp add: schema_validate_output_def c Let_def new_OutputValidation_def)
qed


lemma startswith_head: "startswith e (c # p) \<Longrightarrow> \<exists>t. e = c # t"
  by (cases e) (auto simp: startswith_def)

lemma truthy_iff: "truthy x \<longleftrightarrow> x \<noteq> None \<and> x \<noteq> Some 0"
  by (cases x) (simp_all add: truthy_def)

lemma dict_truthy_iff: "dict_truthy d \<longleftrightarrow> d \<noteq> None \<and> d \<noteq> Some []"
  by (cases d) (simp_all add: dict_truthy_def)

text \<open>
  C9. \<open>OutputSchema.validate_output\<close> always returns, and it records a requirement for the
  word-count bounds, the minimum confidence and the required sources only when the
  metadata value concerned (and the schema's bound) is present and nonzero, and one for a
  required section only when the output has a non-empty sections mapping. Hence an output
  whose word count is absent or \<open>0\<close> is never failed by \<open>min_word_count\<close> (no requirement
  recorded as not met, no error message), and an output without sections is never failed
  by a required section.
\<close>

theorem schema_checks_only_when_present:
  "\<exists>v. schema_validate_output env schema out = Inr v
     \<and> (''min_word_count'' \<in> fst ` set (requirements_met v) \<longrightarrow>
          truthy (min_word_count schema) \<and> truthy (word_count (metadata out)))
     \<and> (''max_word_count'' \<in> fst ` set (requirements_met v) \<longrightarrow>
          truthy (max_word_count schema) \<and> truthy (word_count (metadata out)))
     \<and> (''min_confidence'' \<in> fst ` set (requirements_met v) \<longrightarrow>
          truthy (confidence_score (metadata out)))
     \<and> (''required_sources'' \<in> fst ` set (requirements_met v) \<longrightarrow>
          truthy (required_sources schema) \<and> truthy (source_count (metadata out)))
     \<and> (\<forall>sec. ''section_'' @ sec \<in> fst ` set (requirements_met v) \<longrightarrow>
          required_sections schema \<noteq> [] \<and> dict_truthy (sections out))
     \<and> (word_count (metadata out) = None \<or> word_count (metadata out) = Some 0 \<longrightarrow>
          (''min_word_count'', False) \<notin> set (requirements_met v)
          \<and> (\<forall>e\<in>set (errors v). \<not> startswith e ''Word count ''))
     \<and> (sections out = None \<or> sections out = Some [] \<longrightarrow>
          (\<forall>sec. (''section_'' @ sec, False) \<notin> set (requirements_met v))
          \<and> (\<forall>e\<in>set (errors v). \<not> startswith e ''Required section ''))"
proof -
  let ?c = "schema_checks env schema out"
  let ?v = "\<lparr> is_valid = (fst ?c = []),
           validation_score =
             (if snd (snd ?c) = [] then 1
              else of_nat (length (filter snd (snd (snd ?c)))) / of_nat (length (snd (snd ?c)))),
           errors = fst ?c, warnings = fst (snd ?c), requirements_met = snd (snd ?c) \<rparr>"
  have ret: "schema_validate_output env schema out = Inr ?v"
    by (rule schema_validate_output_returns)
  have keys: "\<And>x. x \<in> fst ` set (requirements_met ?v) \<Longrightarrow> x \<in> acc_keys ?c"
    by (simp add: acc_keys_def)
  have failed: "\<And>x. (x, False) \<in> set (requirements_met ?v) \<Longrightarrow> x \<in> acc_failed ?c"
    by (simp add: acc_failed_def)
  have k1: "''min_word_count'' \<in> fst ` set (requirements_met ?v) \<longrightarrow>
      truthy (min_word_count schema) \<and> truthy (word_count (metadata out))"
    using schema_checks_keys [of "''min_word_count''" env schema out] keys by auto
  have k2: "''max_word_count'' \<in> fst ` set (requirements_met ?v) \<longrightarrow>
      truthy (max_word_count schema) \<and> truthy (word_count (metadata out))"
    using schema_checks_keys [of "''max_word_count''" env schema out] keys by auto
  have k3: "''min_confidence'' \<in> fst ` set (requirements_met ?v) \<longrightarrow>
      truthy (confidence_score (metadata out))"
    using schema_checks_keys [of "''min_confidence''" env schema out] keys by auto
  have k4: "''required_sources'' \<in> fst ` set (requirements_met ?v) \<longrightarrow>
      truthy (required_sources schema) \<and> truthy (source_count (metadata out))"
    using schema_checks_keys [of "''required_sources''" env schema out] keys by auto
  have k5: "\<forall>sec. ''section_'' @ sec \<in> fst ` set (requirements_met ?v) \<longrightarrow>
      required_sections schema \<noteq> [] \<and> dict_truthy (sections out)"
  proof (intro allI impI)
    fix sec assume "''section_'' @ sec \<in> fst ` set (requirements_met ?v)"
    then have "''section_'' @ sec \<in> acc_keys ?c" by (rule keys)
    from schema_checks_keys [OF this]
    show "required_sections schema \<noteq> [] \<and> dict_truthy (sections out)" by auto
  qed
  have w: "word_count (metadata out) = None \<or> word_count (metadata out) = Some 0 \<longrightarrow>
      (''min_word_count'', False) \<notin> set (requirements_met ?v)
      \<and> (\<forall>e\<in>set (errors ?v). \<not> startswith e ''Word count '')"
  proof (intro impI conjI ballI notI)
    assume h: "word_count (metadata out) = None \<or> word_count (metadata out) = Some 0"
    then have nt: "\<not> truthy (word_count (metadata out))" by (auto simp: truthy_iff)
    { assume "(''min_word_count'', False) \<in> set (requirements_met ?v)"
      then have "''min_word_count'' \<in> acc_failed ?c" by (rule failed)
      from schema_checks_failed [OF this] nt show False by auto }
    { fix e assume "e \<in> set (errors ?v)" and sw: "startswith e ''Word count ''"
      then have "e \<in> set (fst ?c)" by simp
      from schema_checks_errors [OF this] nt
      have "startswith e ''Source count '' \<or> startswith e ''Required section ''" by blast
      then show False using sw by (auto dest!: startswith_head) }
  qed
  have s: "sections out = None \<or> sections out = Some [] \<longrightarrow>
      (\<forall>sec. (''section_'' @ sec, False) \<notin> set (requirements_met ?v))
      \<and> (\<forall>e\<in>set (errors ?v). \<not> startswith e ''Required section '')"
  proof (intro impI conjI ballI allI notI)
    assume h: "sections out = None \<or> sections out = Some []"
    then have nt: "\<not> dict_truthy (sections out)" by (auto simp: dict_truthy_iff)
    { fix sec assume "(''section_'' @ sec, False) \<in> set (requirements_met ?v)"
      then have "''section_'' @ sec \<in> acc_failed ?c" by (rule failed)
      from schema_checks_failed [OF this] nt show False by auto }
    { fix e assume "e \<in> set (errors ?v)" and sw: "startswith e ''Required section ''"
      then have "e \<in> set (fst ?c)" by simp
      from schema_checks_errors [OF this] nt
      have "startswith e ''Word count '' \<or> startswith e ''Source count ''" by blast
      then show False using sw by (auto dest!: startswith_head) }
  qed
  show ?thesis
    apply (rule exI [of _ ?v])
    using ret k1 k2 k3 k4 k5 w s by blast
qed


theorem schema_checks_only_when_present_witness:
  "\<exists>v. schema_validate_output plain_env RESEARCH_OUTPUT_SCHEMA
          ((sample_output ''Researcher'' [] SUCCESS None)
             \<lparr> metadata := (metadata (sample_output ''Researcher'' [] SUCCESS None))
                  \<lparr> word_count := Some 0, source_count := Some 5 \<rparr> \<rparr>) = Inr v
      \<and> (''min_word_count'', False) \<notin> set (requirements_met v)
      \<and> (''section_executive_summary'', False) \<notin> set (requirements_met v)
      \<and> ''required_sources'' \<in> fst ` set (requirements_met v)
      \<and> is_valid v"
  using schema_checks_only_when_present [of plain_env RESEARCH_OUTPUT_SCHEMA
      "(sample_output ''Researcher'' [] SUCCESS None)
             \<lparr> metadata := (metadata (sample_output ''Researcher'' [] SUCCESS None))
                  \<lparr> word_count := Some 0, source_count := Some 5 \<rparr> \<rparr>"]
  by (simp add: schema_validate_output_returns schema_checks_def check_min_word_count_def
      check_max_word_count_def check_min_confidence_def check_required_sources_def
      check_required_sections_def RESEARCH_OUTPUT_SCHEMA_def sample_output_def truthy_def
      or0_def dict_truthy_def add_met_def)

section \<open>C3: the processor never raises\<close>




section \<open>C7: the means of the analytics\<close>




























text \<open>With the word counts 0 and 10 present in two outputs of one role, the mean of the
  word counts present is 5 and their minimum 0; the analytics report the average 10 and the
  minimum 10, for the role and in the aggregate: the output whose word count is 0 is left
  out.\<close>

lemma analytics_skip_zero_word_count:
  "present_values (\<lambda>out. word_count (metadata out)) (outputs zero_words_result) = [0, 10]
   \<and> arith_mean (map of_int [0, 10]) = 5
   \<and> map_sum id
        (\<lambda>r. case r of
               AnalyticsError e \<Rightarrow> None
             | AnalyticsOk a \<Rightarrow>
                 Some (avg_words_per_output (content_metrics a), min_words (content_metrics a),
                       map (\<lambda>rp. avg_word_count (snd rp)) (agent_performance a)))
        (calculate_analytics zero_words_result) = Inr (Some (10, 10, [Some 10]))"
  by (simp add: zero_words_result_def present_values_def arith_mean_def
      calculate_analytics_def Let_def sample_output_def group_by_role_def counter_def
      py_div_def agent_stats_def mean_if_any_def truthy_values_def truthy_def or0_def some_def
      mean_def rat_word_count_def count_status_def calc_content_metrics_def py_min_def py_max_def
      median_def calc_performance_metrics_def calc_quality_metrics_def validation_scores_def
      has_errors_def has_warnings_def)

section \<open>C6: the validation score\<close>













section \<open>C5: inputs with a heading or a bold marker\<close>

lemma search_from_iff:
  "search_from ic r p s \<noteq> None \<longleftrightarrow>
     (\<exists>pre suf. s = pre @ suf \<and> match_here ic r (prev_char p pre) suf \<noteq> None)"
proof (induction s arbitrary: p)
  case Nil
  then show ?case by (simp add: prev_char_def)
next
  case (Cons c t)
  show ?case
  proof (cases "match_here ic r p (c # t)")
    case (Some m)
    then have "\<exists>pre suf. c # t = pre @ suf \<and> match_here ic r (prev_char p pre) suf \<noteq> None"
      by (intro exI [of _ "[]"] exI [of _ "c # t"]) (simp add: prev_char_def)
    then show ?thesis using Some by simp
  next
    case None
    have "(\<exists>pre suf. c # t = pre @ suf \<and> match_here ic r (prev_char p pre) suf \<noteq> None)
        \<longleftrightarrow> (\<exists>pre suf. t = pre @ suf \<and> match_here ic r (prev_char (Some c) pre) suf \<noteq> None)"
    proof
      assume "\<exists>pre suf. c # t = pre @ suf \<and> match_here ic r (prev_char p pre) suf \<noteq> None"
      then obtain pre suf where ps: "c # t = pre @ suf" "match_here ic r (prev_char p pre) suf \<noteq> None"
        by blast
      have "pre \<noteq> []" using ps None by (auto simp: prev_char_def)
      then obtain pre' where pre: "pre = c # pre'" using ps(1) by (cases pre) auto
      have "prev_char p pre = prev_char (Some c) pre'" using pre by (simp add: prev_char_def)
      then show "\<exists>pre suf. t = pre @ suf \<and> match_here ic r (prev_char (Some c) pre) suf \<noteq> None"
        using ps pre by auto
    next
      assume "\<exists>pre suf. t = pre @ suf \<and> match_here ic r (prev_char (Some c) pre) suf \<noteq> None"
      then obtain pre suf where ps: "t = pre @ suf" "match_here ic r (prev_char (Some c) pre) suf \<noteq> None"
        by blast
      have "prev_char p (c # pre) = prev_char (Some c) pre" by (simp add: prev_char_def)
      then show "\<exists>pre suf. c # t = pre @ suf \<and> match_here ic r (prev_char p pre) suf \<noteq> None"
        using ps by (intro exI [of _ "c # pre"] exI [of _ suf]) simp
    qed
    then show ?thesis using None Cons.IH [of "Some c"] by simp
  qed
qed

lemma contains_split: "contains s b \<Longrightarrow> \<exists>pre post. s = pre @ b @ post"
proof (induction s)
  case Nil
  then show ?case by simp
next
  case (Cons c cs)
  from Cons.prems have "startswith (c # cs) b \<or> contains cs b" by simp
  then show ?case
  proof
    assume "startswith (c # cs) b"
    then have "c # cs = [] @ b @ drop (length b) (c # cs)"
      unfolding startswith_def by (metis append_Nil append_take_drop_id)
    then show ?thesis by blast
  next
    assume "contains cs b"
    then obtain pre post where "cs = pre @ b @ post" using Cons.IH by blast
    then have "c # cs = (c # pre) @ b @ post" by simp
    then show ?thesis by blast
  qed
qed

lemma rep_greedy_total:
  "(\<And>p' s'. cont p' s' \<noteq> None) \<Longrightarrow> rep_greedy ic k 0 hi p s cont \<noteq> None"
  by (induction s arbitrary: hi p) (auto split: option.splits)

lemma bold_matches: "match_here False rx_md_bold p (''**bold**'' @ post) \<noteq> None"
  by (simp add: match_here_def rx_md_bold_def seqs_def lit_def ch_def lazy_any_def NL_def)

lemma hash_space_match:
  assumes "match_here False rx_hash_space p suf \<noteq> None"
  shows "(p = None \<or> p = Some NL) \<and> (\<exists>c post. suf = CHR ''#'' # c # post \<and> is_space c)"
proof -
  have "mo False rx_hash_space (p, suf, []) Some \<noteq> None"
    using assms by (simp add: match_here_def)
  then show ?thesis
    by (auto simp: rx_hash_space_def seqs_def ch_def split: if_splits list.splits)
qed

lemma space_not_hash: "is_space c \<Longrightarrow> c \<noteq> CHR ''#''"
  by (auto simp: is_space_def)

lemma header_matches:
  assumes "p = None \<or> p = Some NL" and "is_space c"
  shows "match_here False rx_md_header p (CHR ''#'' # c # post) \<noteq> None"
proof -
  have g: "rep_greedy False (CItem ISpace) 0 None (Some c) post
             (\<lambda>p' s'. Some (p', s', [] :: string list)) \<noteq> None"
    by (rule rep_greedy_total) simp
  then obtain r where r: "rep_greedy False (CItem ISpace) 0 None (Some c) post
             (\<lambda>p' s'. Some (p', s', [] :: string list)) = Some r" by blast
  have "mo False rx_md_header (p, CHR ''#'' # c # post, []) Some \<noteq> None"
    using assms r space_not_hash [OF assms(2)]
    by (auto simp: rx_md_header_def seqs_def spaces1_def)
  then show ?thesis by (simp add: match_here_def)
qed

lemma is_markdown_hash:
  assumes "re_found False rx_hash_space s"
  shows "is_markdown s"
proof -
  from assms obtain pre suf where ps: "s = pre @ suf"
      "match_here False rx_hash_space (prev_char None pre) suf \<noteq> None"
    unfolding re_found_def re_search_def search_from_iff by blast
  from hash_space_match [OF ps(2)] obtain c post where
      m: "prev_char None pre = None \<or> prev_char None pre = Some NL"
         "suf = CHR ''#'' # c # post" "is_space c" by blast
  have "match_here False rx_md_header (prev_char None pre) suf \<noteq> None"
    unfolding m(2) using m(1) m(3) by (rule header_matches)
  then have "re_found False rx_md_header s"
    unfolding re_found_def re_search_def search_from_iff using ps(1) by blast
  then show ?thesis by (simp add: is_markdown_def markdown_patterns_def)
qed

lemma is_markdown_bold:
  assumes "contains s ''**bold**''"
  shows "is_markdown s"
proof -
  from contains_split [OF assms] obtain pre post where s: "s = pre @ ''**bold**'' @ post" by blast
  have "match_here False rx_md_bold (prev_char None pre) (''**bold**'' @ post) \<noteq> None"
    by (rule bold_matches)
  then have "re_found False rx_md_bold s"
    unfolding re_found_def re_search_def search_from_iff using s by blast
  then show ?thesis by (simp add: is_markdown_def markdown_patterns_def)
qed


text \<open>C5. A text that matches \<^verbatim>\<open>^#\s\<close> at a line start or contains \<^verbatim>\<open>**bold**\<close> is
  accepted by \<open>_is_markdown\<close>. Type detection tries the two parsers first: the text is
  classified as json when \<open>json.loads\<close> reads it, as yaml when \<open>yaml.safe_load\<close> gives a
  dictionary or a list, and as markdown otherwise; it is never classified as text, html or
  csv.\<close>

theorem markdown_markers_detected:
  assumes "re_found False rx_hash_space s \<or> contains s ''**bold**''"
  shows "is_markdown s
    \<and> determine_output_type env (PStr s) =
        (case json_loads env s of
           Inr parsed \<Rightarrow> Inr (JSON, parsed)
         | Inl (JSONDecodeError m) \<Rightarrow>
             (case yaml_safe_load env s of
                Inr parsed \<Rightarrow> if is_container parsed then Inr (YAML, parsed) else Inr (MARKDOWN, PStr s)
              | Inl (YAMLError m') \<Rightarrow> Inr (MARKDOWN, PStr s)
              | Inl e \<Rightarrow> Inl e)
         | Inl e \<Rightarrow> Inl e)
    \<and> (\<forall>t c. determine_output_type env (PStr s) = Inr (t, c) \<longrightarrow> t \<in> {JSON, YAML, MARKDOWN})"
proof -
  have md: "is_markdown s" using assms is_markdown_hash is_markdown_bold by blast
  then have sn: "sniff_text s = MARKDOWN" by (simp add: sniff_text_def)
  have eq: "determine_output_type env (PStr s) =
        (case json_loads env s of
           Inr parsed \<Rightarrow> Inr (JSON, parsed)
         | Inl (JSONDecodeError m) \<Rightarrow>
             (case yaml_safe_load env s of
                Inr parsed \<Rightarrow> if is_container parsed then Inr (YAML, parsed) else Inr (MARKDOWN, PStr s)
              | Inl (YAMLError m') \<Rightarrow> Inr (MARKDOWN, PStr s)
              | Inl e \<Rightarrow> Inl e)
         | Inl e \<Rightarrow> Inl e)"
    by (simp add: determine_output_type_def after_json_def sn split: sum.splits exc.splits)
  have ty: "\<forall>t c. determine_output_type env (PStr s) = Inr (t, c) \<longrightarrow> t \<in> {JSON, YAML, MARKDOWN}"
    unfolding eq by (auto split: sum.splits exc.splits if_splits)
  show ?thesis using md eq ty by blast
qed

theorem markdown_markers_detected_witness:
  "re_found False rx_hash_space (''# Title'' @ [NL] @ ''text'')
   \<and> is_markdown (''# Title'' @ [NL] @ ''text'')
   \<and> determine_output_type plain_env (PStr (''# Title'' @ [NL] @ ''text''))
       = Inr (MARKDOWN, PStr (''# Title'' @ [NL] @ ''text''))"
proof -
  have h: "re_found False rx_hash_space (''# Title'' @ [NL] @ ''text'')"
    by code_simp
  show ?thesis
    using markdown_markers_detected [of "''# Title'' @ [NL] @ ''text''" plain_env] h
    by (simp add: plain_env_def)
qed

text \<open>The JSON string literal \<^verbatim>\<open>"**bold**"\<close> contains the bold marker and is classified
  as json, with the text between the quotes for content.\<close>

theorem json_literal_with_bold_is_json:
  "contains (CHR 0x22 # ''**bold**'' @ [CHR 0x22]) ''**bold**''
   \<and> determine_output_type literal_env (PStr (CHR 0x22 # ''**bold**'' @ [CHR 0x22]))
       = Inr (JSON, PStr ''**bold**'')"
  by (simp add: determine_output_type_def literal_env_def json_literal_def startswith_def)

section \<open>C4: the scenario of the heading, the bold word and the link\<close>















section \<open>C1: failed outputs and their error details\<close>

text \<open>C1. The invariant that a failed output carries error details does not hold for the
  consolidation strategies \<open>merge\<close> and \<open>best\<close>: consolidating one failed output, whose error
  details are \<open>boom\<close>, gives with either strategy an output whose status is failed and whose
  error details are \<open>None\<close>. Neither \<open>_merge_outputs\<close> nor \<open>_select_best_output\<close> passes
  \<open>error_details\<close> to the constructor.\<close>

theorem consolidation_drops_error_details:
  "status (sample_output ''Writer'' ''raw text'' FAILED (Some ''boom'')) = FAILED
   \<and> error_details (sample_output ''Writer'' ''raw text'' FAILED (Some ''boom'')) = Some ''boom''
   \<and> map_sum id (\<lambda>out. (status out, error_details out))
        (create_consolidated_output plain_env ''id-2'' 0
           [sample_output ''Writer'' ''raw text'' FAILED (Some ''boom'')]
           ''merge'' ''Consolidated Agent'') = Inr (FAILED, None)
   \<and> map_sum id (\<lambda>out. (status out, error_details out))
        (create_consolidated_output plain_env ''id-2'' 0
           [sample_output ''Writer'' ''raw text'' FAILED (Some ''boom'')]
           ''best'' ''Consolidated Agent'') = Inr (FAILED, None)"
  by (simp add: create_consolidated_output_def merge_outputs_def select_best_output_def
      sample_output_def Let_def mean_if_any_def truthy_def py_min_key_def py_max_key_def
      new_OutputMetadata_def new_StructuredOutput_def)

end
